theory Spec2Isabelle
  imports Main "HOL-Library.Sublist"
begin

section \<open>JavaScript strings\<close>

text \<open>
  A JavaScript string is modelled as an Isabelle \<open>string\<close>: one \<open>char\<close> per UTF-16
  code unit, for the code units below 256 (the Latin-1 range). The library functions
  of \<open>String.prototype\<close> and \<open>Array.prototype\<close> that \<open>mod.ts\<close> calls are written out
  on that range as ECMAScript defines them.
\<close>

abbreviation nl :: char where
  "nl \<equiv> CHR 0x0A"

abbreviation sq :: char where
  "sq \<equiv> CHR 0x27"

text \<open>
  \<open>WhiteSpace\<close> and \<open>LineTerminator\<close> of ECMAScript below 256: TAB, LF, VT, FF, CR,
  SP and NBSP. These are the code units \<open>trim\<close> strips.
\<close>

definition is_whitespace :: "char \<Rightarrow> bool" where
  "is_whitespace c =
     (c = CHR 0x09 \<or> c = CHR 0x0A \<or> c = CHR 0x0B \<or> c = CHR 0x0C \<or> c = CHR 0x0D \<or>
      c = CHR 0x20 \<or> c = CHR 0xA0)"

text \<open>\<open>String.prototype.trim\<close>.\<close>

definition trim :: "string \<Rightarrow> string" where
  "trim s = rev (dropWhile is_whitespace (rev (dropWhile is_whitespace s)))"

text \<open>
  \<open>String.prototype.toLowerCase\<close>: below 256 the Unicode lower-case mapping moves
  \<open>A\<close>..\<open>Z\<close> and U+00C0..U+00DE (but not the multiplication sign U+00D7) up by 32 and
  leaves every other code unit alone.
\<close>

definition lower_char :: "char \<Rightarrow> char" where
  "lower_char c =
     (let n = (of_char c :: nat)
      in if (65 \<le> n \<and> n \<le> 90) \<or> (192 \<le> n \<and> n \<le> 222 \<and> n \<noteq> 215)
         then char_of (n + 32) else c)"

definition toLowerCase :: "string \<Rightarrow> string" where
  "toLowerCase s = map lower_char s"

text \<open>\<open>String.prototype.startsWith\<close>.\<close>

definition startsWith :: "string \<Rightarrow> string \<Rightarrow> bool" where
  "startsWith s p = (take (length p) s = p)"

text \<open>
  \<open>String.prototype.split\<close> with a one-character separator: the pieces between the
  occurrences of the separator, in order; the empty string gives one empty piece.
\<close>

fun split :: "char \<Rightarrow> string \<Rightarrow> string list" where
  "split sep [] = [[]]"
| "split sep (c # cs) =
     (if c = sep then [] # split sep cs
      else (case split sep cs of
              [] \<Rightarrow> [[c]]
            | p # ps \<Rightarrow> (c # p) # ps))"

text \<open>
  Reading an array at an index: \<open>None\<close> stands for JavaScript's \<open>undefined\<close>, which an
  index past the end gives.
\<close>

fun at_index :: "'a list \<Rightarrow> nat \<Rightarrow> 'a option" where
  "at_index [] i = None"
| "at_index (x # xs) 0 = Some x"
| "at_index (x # xs) (Suc i) = at_index xs i"

text \<open>\<open>Array.prototype.join\<close> on an array of strings.\<close>

fun join :: "string \<Rightarrow> string list \<Rightarrow> string" where
  "join sep [] = []"
| "join sep [x] = x"
| "join sep (x # y # ys) = x @ sep @ join sep (y # ys)"

text \<open>
  Truthiness of a value that is a string or \<open>undefined\<close> (an environment variable, a
  positional argument, the optional parameter of \<open>showSchema\<close>): \<open>undefined\<close> and the
  empty string are falsy.
\<close>

fun truthy :: "string option \<Rightarrow> bool" where
  "truthy None = False"
| "truthy (Some s) = (s \<noteq> [])"


section \<open>What the program prints and does\<close>

text \<open>
  A run of the program is the list of the calls it makes that reach outside: what it
  hands to \<open>console.log\<close> and \<open>console.error\<close>, \<open>rl.prompt()\<close>, \<open>spawnSync\<close>,
  \<open>rl.close()\<close> and \<open>process.exit\<close>. The arguments of a console call are kept as
  values, not rendered: a string; \<open>JSON.stringify(results, null, 2)\<close> of a row-set; a
  metadata object (or \<open>undefined\<close>) that the console formats; a caught exception.
  The exceptions are the ones the \<open>try\<close> block can raise: \<open>result.error\<close>, the
  \<open>Error\<close> built from the status and the captured output (its message is
  \<open>Command failed with status <status>: <stdout>\<close>), the \<open>SyntaxError\<close> of
  \<open>JSON.parse\<close>, and the \<open>TypeError\<close> of spawning without a command; and the two
  that the strict \<open>parseArgs\<close> call at the top of the module can raise: an unknown
  option (with the option as it was written) and a boolean option that was given a
  value (with the option's name). Nothing catches these two: an exception that
  nothing catches ends the run, the runtime prints it on the error stream and the
  process ends with exit code 1.
\<close>

datatype js_error =
    SpawnError string
  | CommandFailed "int option" string
  | SyntaxError
  | TypeError
  | UnknownOption string
  | OptionTakesNoArgument string

type_synonym 'v row = "(string \<times> 'v) list"

datatype 'v printed =
    Text string
  | Stringify2 "'v row list"
  | Object "'v row option"
  | Thrown js_error

datatype 'v event =
    ConsoleLog "'v printed list"
  | ConsoleError "'v printed list"
  | Prompt
  | SpawnSync string "string list"
  | RlClose
  | ProcessExit int
  | Uncaught js_error

text \<open>A run is over once the process has exited, by a call or by an uncaught exception.\<close>

fun is_exit :: "'v event \<Rightarrow> bool" where
  "is_exit (ProcessExit c) = True"
| "is_exit (Uncaught e) = True"
| "is_exit e = False"

definition exited :: "'v event list \<Rightarrow> bool" where
  "exited evs = list_ex is_exit evs"

text \<open>One piece of code after another: the second does not run when the first exits.\<close>

definition andThen :: "'v event list \<Rightarrow> 'v event list \<Rightarrow> 'v event list" where
  "andThen xs ys = (if exited xs then xs else xs @ ys)"


section \<open>Startup: the arguments\<close>

text \<open>
  The result of \<open>parseArgs\<close> with the three boolean options \<open>local\<close> (\<open>-l\<close>),
  \<open>remote\<close> (\<open>-r\<close>) and \<open>help\<close> (\<open>-h\<close>): a boolean option is \<open>true\<close> when the flag was
  given and \<open>undefined\<close> (here \<open>False\<close>) when it was not.
\<close>

record parsed_args =
  values_local :: bool
  values_remote :: bool
  values_help :: bool
  positionals :: "string list"

text \<open>
  \<open>util.parseArgs\<close> as the module calls it: on the arguments of the process, with the
  three options above, positionals allowed and \<open>strict\<close> left at its default, which
  is \<open>true\<close>. The library first turns the arguments into tokens and then stores
  them; both steps are written out here as the library has them. None of the three
  options is of type string, so the branches of the library that let an option take
  the next argument as its value never apply and are left out.
\<close>

datatype token =
    OptionToken string string "string option"
  | PositionalToken string
  | OptionTerminator

text \<open>The long name of a short option; the character itself when no option has it.\<close>

definition findLongOptionForShort :: "char \<Rightarrow> string" where
  "findLongOptionForShort shortOption =
     (if shortOption = CHR ''l'' then ''local''
      else if shortOption = CHR ''r'' then ''remote''
      else if shortOption = CHR ''h'' then ''help''
      else [shortOption])"

definition isLoneShortOption :: "string \<Rightarrow> bool" where
  "isLoneShortOption arg =
     (length arg = 2 \<and> arg ! 0 = CHR ''-'' \<and> arg ! 1 \<noteq> CHR ''-'')"

text \<open>
  A group of short options, as in \<open>-lr\<close>. The library also asks that the first
  option of the group is not of type string, which holds for every character here.
\<close>

definition isShortOptionGroup :: "string \<Rightarrow> bool" where
  "isShortOptionGroup arg =
     (length arg > 2 \<and> arg ! 0 = CHR ''-'' \<and> arg ! 1 \<noteq> CHR ''-'')"

text \<open>\<open>includes(arg, '=', 3)\<close> looks for the equals sign from index 3 on.\<close>

definition isLoneLongOption :: "string \<Rightarrow> bool" where
  "isLoneLongOption arg =
     (length arg > 2 \<and> startsWith arg ''--'' \<and> CHR ''='' \<notin> set (drop 3 arg))"

definition isLongOptionAndValue :: "string \<Rightarrow> bool" where
  "isLongOptionAndValue arg =
     (length arg > 2 \<and> startsWith arg ''--'' \<and> CHR ''='' \<in> set (drop 3 arg))"

text \<open>\<open>String.prototype.indexOf\<close> for a character that occurs in the string.\<close>

definition indexOf :: "string \<Rightarrow> char \<Rightarrow> nat" where
  "indexOf s c = length (takeWhile (\<lambda>x. x \<noteq> c) s)"

text \<open>
  \<open>argsToTokens\<close>, the loop over \<open>remainingArgs\<close>. A bare \<open>--\<close> makes every
  later argument a positional. A group \<open>-xyz\<close> is put back at the front of the
  remaining arguments as \<open>-x\<close>, \<open>-y\<close>, \<open>-z\<close>, which the loop then reads one by
  one. \<open>--name=value\<close> is cut at its first equals sign.
\<close>

function argsToTokens :: "string list \<Rightarrow> token list" where
  "argsToTokens [] = []"
| "argsToTokens (arg # remainingArgs) =
     (if arg = ''--'' then OptionTerminator # map PositionalToken remainingArgs
      else if isLoneShortOption arg
      then OptionToken (findLongOptionForShort (arg ! 1)) arg None # argsToTokens remainingArgs
      else if isShortOptionGroup arg
      then argsToTokens (map (\<lambda>shortOption. [CHR ''-'', shortOption]) (tl arg) @ remainingArgs)
      else if isLoneLongOption arg
      then OptionToken (drop 2 arg) arg None # argsToTokens remainingArgs
      else if isLongOptionAndValue arg
      then (let equalIndex = indexOf arg (CHR ''='');
                longOption = take (equalIndex - 2) (drop 2 arg);
                value = drop (equalIndex + 1) arg
            in OptionToken longOption (''--'' @ longOption) (Some value) #
               argsToTokens remainingArgs)
      else PositionalToken arg # argsToTokens remainingArgs)"
  by pat_completeness auto
termination
proof (relation "measure (\<lambda>args. sum_list (map (\<lambda>a. if isShortOptionGroup a then 2 * length a else 1) args))")
  show "wf (measure (\<lambda>args. sum_list (map (\<lambda>a. if isShortOptionGroup a then 2 * length a else 1) args)))"
    by simp
next
  fix arg :: string and remainingArgs :: "string list"
  assume "isShortOptionGroup arg"
  then have long: "length arg > 2"
    by (simp add: isShortOptionGroup_def)
  have "sum_list (map (\<lambda>a. if isShortOptionGroup a then 2 * length a else 1)
          (map (\<lambda>shortOption. [CHR ''-'', shortOption]) cs)) = length cs" for cs :: string
    by (induction cs) (simp_all add: isShortOptionGroup_def)
  from this [of "tl arg"] long \<open>isShortOptionGroup arg\<close>
  show "(map (\<lambda>shortOption. [CHR ''-'', shortOption]) (tl arg) @ remainingArgs,
         arg # remainingArgs)
        \<in> measure (\<lambda>args. sum_list (map (\<lambda>a. if isShortOptionGroup a then 2 * length a else 1) args))"
    by simp
qed (auto simp: isShortOptionGroup_def)

declare argsToTokens.simps [simp del]

text \<open>
  The second step, the loop over the tokens. In strict mode an option that is not
  one of the three, and a boolean option that came with a value, make \<open>parseArgs\<close>
  throw (\<open>Inl\<close>); otherwise the option is stored as \<open>true\<close>, and a positional is
  appended to the positionals.
\<close>

fun storeTokens :: "token list \<Rightarrow> parsed_args \<Rightarrow> js_error + parsed_args" where
  "storeTokens [] result = Inr result"
| "storeTokens (OptionToken name rawName value # tokens) result =
     (if name \<noteq> ''local'' \<and> name \<noteq> ''remote'' \<and> name \<noteq> ''help''
      then Inl (UnknownOption rawName)
      else if value \<noteq> None then Inl (OptionTakesNoArgument name)
      else if name = ''local'' then storeTokens tokens (result\<lparr>values_local := True\<rparr>)
      else if name = ''remote'' then storeTokens tokens (result\<lparr>values_remote := True\<rparr>)
      else storeTokens tokens (result\<lparr>values_help := True\<rparr>))"
| "storeTokens (PositionalToken value # tokens) result =
     storeTokens tokens (result\<lparr>positionals := positionals result @ [value]\<rparr>)"
| "storeTokens (OptionTerminator # tokens) result = storeTokens tokens result"

definition parseArgs :: "string list \<Rightarrow> js_error + parsed_args" where
  "parseArgs args =
     storeTokens (argsToTokens args)
       \<lparr>values_local = False, values_remote = False, values_help = False, positionals = []\<rparr>"

text \<open>The session: the module-level constants \<open>databaseName\<close> and \<open>flags\<close>.\<close>

record session =
  databaseName :: string
  flags :: "string list"

definition usage_text :: string where
  "usage_text = join [nl]
     ['''',
      ''Usage: sqlite-repl.ts [database-name] [options]'',
      '''',
      ''Options:'',
      ''  -l, --local     Use local database'',
      ''  -r, --remote    Use remote database'',
      ''  -h, --help      Show this help message'',
      '''',
      ''Examples:'',
      ''  sqlite-repl.ts my-database --local'',
      ''  sqlite-repl.ts my-database --remote'',
      ''  sqlite-repl.ts --help'',
      '''']"

text \<open>\<open>flags\<close>, built by two pushes.\<close>

definition build_flags :: "parsed_args \<Rightarrow> string list" where
  "build_flags a =
     (if values_local a then [''--local''] else []) @
     (if values_remote a then [''--remote''] else [])"

text \<open>
  The top of the module, up to the construction of the REPL: what it prints and the
  exit it takes, or the session the REPL then runs in. \<open>!databaseName\<close> holds for
  \<open>undefined\<close> (no positional argument) and for the empty string.
\<close>

definition startup :: "parsed_args \<Rightarrow> 'v event list \<times> session option" where
  "startup a =
     (if values_help a then ([ConsoleLog [Text usage_text], ProcessExit 0], None)
      else
        (case at_index (positionals a) 0 of
           None \<Rightarrow> ([ConsoleError [Text ''Database name is required''], ProcessExit 1], None)
         | Some name \<Rightarrow>
             if name = []
             then ([ConsoleError [Text ''Database name is required''], ProcessExit 1], None)
             else if values_local a \<and> values_remote a
             then ([ConsoleError [Text ''Cannot use both local and remote flags''],
                    ProcessExit 1], None)
             else ([], Some \<lparr>databaseName = name, flags = build_flags a\<rparr>)))"


section \<open>The world outside the program\<close>

text \<open>
  The interface \<open>D1Result\<close>, one batch of the response. The code guards \<open>item.results\<close>
  and \<open>item.meta\<close> against being absent, so these two fields are optional here
  (\<open>None\<close> for a missing or \<open>null\<close> field); a row and the metadata are objects, kept
  as their lists of entries, with values of the type \<open>unknown\<close> (the type variable).
\<close>

record 'v D1Result =
  meta :: "'v row option"
  results :: "'v row list option"
  success :: bool

text \<open>
  What \<open>spawnSync\<close> returns: \<open>error\<close> (set when the child could not be spawned),
  \<open>status\<close> (\<open>null\<close> when the child did not exit by itself) and the captured
  \<open>stdout\<close>. An exception thrown by \<open>spawnSync\<close> itself reaches the same \<open>catch\<close> as
  a thrown \<open>result.error\<close>, and is modelled as one.
\<close>

record spawn_result =
  error :: "string option"
  status :: "int option"
  stdout :: string

text \<open>
  A directory is the list of its path segments below the root, so that the root is
  \<open>[]\<close>, \<open>dirname\<close> drops the last segment and \<open>dirname\<close> of the root is the root.
\<close>

type_synonym path = "string list"

definition dirname :: "path \<Rightarrow> path" where
  "dirname p = butlast p"

definition path_join :: "path \<Rightarrow> string \<Rightarrow> path" where
  "path_join p name = p @ [name]"

text \<open>
  Everything the executor reads from outside at one submitted line: the two
  environment variables, the working directory, the file system (\<open>existsSync\<close>), the
  child process (\<open>spawnSync\<close>, by command and arguments) and \<open>JSON.parse\<close> read at
  the type \<open>D1Result[]\<close> to which the code casts its result (\<open>None\<close> when it throws).
  \<open>process.cwd()\<close> is taken to return a directory, and the console calls to return.
\<close>

record 'v world =
  npm_config_user_agent :: "string option"
  env_DEBUG :: "string option"
  cwd :: path
  existsSync :: "path \<Rightarrow> bool"
  spawnSync :: "string \<Rightarrow> string list \<Rightarrow> spawn_result"
  JSON_parse :: "string \<Rightarrow> 'v D1Result list option"


section \<open>Launcher selection\<close>

function findPackageManager_from :: "(path \<Rightarrow> bool) \<Rightarrow> path \<Rightarrow> string" where
  "findPackageManager_from ex currentDir =
     (if dirname currentDir \<noteq> currentDir then
        if ex (path_join currentDir ''pnpm-lock.yaml'') then ''pnpm''
        else if ex (path_join currentDir ''yarn.lock'') then ''yarn''
        else if ex (path_join currentDir ''bun.lock'') then ''bun''
        else if ex (path_join currentDir ''package-lock.json'') then ''npm''
        else if ex (path_join currentDir ''deno.lock'') then ''deno''
        else findPackageManager_from ex (dirname currentDir)
      else ''npx'')"
  by pat_completeness auto
termination
proof (relation "measure (\<lambda>(ex, d). length d)")
  show "wf (measure (\<lambda>(ex :: path \<Rightarrow> bool, d :: path). length d))"
    by simp
next
  fix ex :: "path \<Rightarrow> bool" and currentDir :: path
  assume "dirname currentDir \<noteq> currentDir"
  then have "currentDir \<noteq> []"
    by (auto simp: dirname_def)
  then show "((ex, dirname currentDir), (ex, currentDir)) \<in> measure (\<lambda>(ex, d). length d)"
    by (simp add: dirname_def)
qed

declare findPackageManager_from.simps [simp del]

definition findPackageManager :: "'v world \<Rightarrow> string" where
  "findPackageManager w = findPackageManager_from (existsSync w) (cwd w)"

text \<open>The pushes onto \<open>args\<close> before the tool's own arguments (lines 164 to 183).\<close>

definition launcher :: "'v world \<Rightarrow> string list" where
  "launcher w =
     (if truthy (npm_config_user_agent w) then [''wrangler'']
      else
        (let packageManager = findPackageManager w
         in if packageManager = ''deno'' then [''deno'', ''run'', ''-A'', ''npm:wrangler'']
            else if packageManager = ''pnpm'' then [''pnpm'', ''wrangler'']
            else if packageManager = ''yarn'' then [''yarn'', ''wrangler'']
            else if packageManager = ''bun'' then [''bun'', ''wrangler'']
            else [''npx'', ''wrangler'']))"


section \<open>The executor\<close>

text \<open>\<open>args\<close> as it stands before \<open>args.shift()\<close>.\<close>

definition build_args :: "session \<Rightarrow> 'v world \<Rightarrow> string \<Rightarrow> string list" where
  "build_args s w sql =
     launcher w @ [''d1'', ''execute'', databaseName s] @ flags s @
     [''--json'', ''--command'', sql]"

text \<open>\<open>Array.prototype.shift\<close>: the first element (or \<open>undefined\<close>) and the rest.\<close>

fun shift :: "'a list \<Rightarrow> 'a option \<times> 'a list" where
  "shift [] = (None, [])"
| "shift (x # xs) = (Some x, xs)"

definition displayResults :: "'v row list \<Rightarrow> 'v event list" where
  "displayResults rs =
     (if length rs = 0 then [ConsoleLog [Text ''No results'']]
      else [ConsoleLog [Stringify2 rs]])"

text \<open>The body of the loop over the parsed response, for one \<open>item\<close>.\<close>

definition show_item :: "'v D1Result \<Rightarrow> 'v event list" where
  "show_item item =
     (if success item then
        [ConsoleLog [Text ''Success'']] @
        (case results item of
           None \<Rightarrow> [ConsoleLog [Text ''No results returned'']]
         | Some rs \<Rightarrow>
             if length rs > 0 then displayResults rs
             else [ConsoleLog [Text ''No results returned'']]) @
        (case meta item of
           None \<Rightarrow> []
         | Some m \<Rightarrow>
             if length m > 0 then [ConsoleLog [Text ''Meta:'', Object (meta item)]] else [])
      else
        [ConsoleError [Text ''Query failed''],
         ConsoleError [Text ''Meta:'', Object (meta item)]])"

primrec show_items :: "'v D1Result list \<Rightarrow> 'v event list" where
  "show_items [] = []"
| "show_items (item # items) = show_item item @ show_items items"

text \<open>The \<open>catch\<close> clause.\<close>

definition execution_failed :: "js_error \<Rightarrow> 'v event list" where
  "execution_failed e = [ConsoleError [Text ''Execution failed:'', Thrown e]]"

text \<open>
  The text of a \<open>string | undefined\<close> inside a template literal.
\<close>

fun template_text :: "string option \<Rightarrow> string" where
  "template_text None = ''undefined''"
| "template_text (Some s) = s"

definition executeSQL :: "session \<Rightarrow> 'v world \<Rightarrow> string \<Rightarrow> 'v event list" where
  "executeSQL s w sql =
     ConsoleLog [Text (nl # ''Executing: '' @ sql)] #
     (case shift (build_args s w sql) of
        (command, args) \<Rightarrow>
          (if truthy (env_DEBUG w)
           then [ConsoleLog [Text (''Using command: '' @ template_text command @ '' '' @
                                   join '' '' args)]]
           else []) @
          (case command of
             None \<Rightarrow> execution_failed TypeError
           | Some c \<Rightarrow>
               SpawnSync c args #
               (let result = spawnSync w c args
                in case error result of
                     Some e \<Rightarrow> execution_failed (SpawnError e)
                   | None \<Rightarrow>
                       if status result \<noteq> Some 0
                       then execution_failed (CommandFailed (status result) (stdout result))
                       else
                         (case JSON_parse w (stdout result) of
                            None \<Rightarrow> execution_failed SyntaxError
                          | Some parsed \<Rightarrow> show_items parsed))))"


section \<open>The dot-commands\<close>

definition tables_sql :: string where
  "tables_sql =
     ''SELECT name FROM sqlite_master WHERE type='table' AND name NOT LIKE 'sqlite_%' ORDER BY name;''"

definition showTables :: "session \<Rightarrow> 'v world \<Rightarrow> 'v event list" where
  "showTables s w = executeSQL s w tables_sql"

text \<open>The SQL text that \<open>showSchema\<close> builds; \<open>if (tableName)\<close> is a truthiness test.\<close>

definition schema_sql :: "string option \<Rightarrow> string" where
  "schema_sql tableName =
     (if truthy tableName
      then ''SELECT sql FROM sqlite_master WHERE type='table' AND name='' @ [sq] @
           template_text tableName @ [sq] @ '';''
      else ''SELECT name, sql FROM sqlite_master WHERE type='table' AND name NOT LIKE 'sqlite_%' ORDER BY name;'')"

definition showSchema :: "session \<Rightarrow> 'v world \<Rightarrow> string option \<Rightarrow> 'v event list" where
  "showSchema s w tableName = executeSQL s w (schema_sql tableName)"

definition help_text :: string where
  "help_text = join [nl]
     ['''',
      ''SQLite REPL Commands:'',
      ''  .help     - Show this help message'',
      ''  .exit     - Exit the REPL'',
      ''  .quit     - Exit the REPL'',
      ''  .tables   - List all tables'',
      ''  .schema   - Show all table schemas'',
      ''  .schema table_name - Show schema for specific table'',
      '''',
      ''SQL Commands:'',
      ''  SELECT * FROM table_name;'',
      ''  INSERT INTO table_name (col1, col2) VALUES ('val1', 'val2');'',
      ''  UPDATE table_name SET col1 = 'new_val' WHERE condition;'',
      ''  DELETE FROM table_name WHERE condition;'',
      ''  CREATE TABLE table_name (col1 TEXT, col2 INTEGER);'',
      ''  DROP TABLE table_name;'',
      '''',
      ''Examples:'',
      ''  SELECT * FROM locations LIMIT 5;'',
      ''  SELECT COUNT(*) FROM locations;'',
      ''  .tables'',
      ''  .schema'',
      ''  .schema locations'',
      ''    '']"

definition showHelp :: "'v event list" where
  "showHelp = [ConsoleLog [Text help_text]]"

text \<open>
  \<open>exit()\<close>: the farewell, \<open>rl.close()\<close>, \<open>process.exit(0)\<close>. The program's
  listener of the \<open>close\<close> event is \<open>exit()\<close> itself, and \<open>rl.close()\<close> on an
  interface that is still open marks it closed and then emits \<open>close\<close>, while on a
  closed interface it returns at once. So \<open>exit()\<close> has two runs.

  Inside the \<open>close\<close> listener the interface is already closed: \<open>rl.close()\<close> does
  nothing and \<open>process.exit(0)\<close> ends the process.
\<close>

definition exit_closed :: "'v event list" where
  "exit_closed = [ConsoleLog [Text (nl # ''Goodbye!'')], RlClose, ProcessExit 0]"

text \<open>\<open>rl.close()\<close> on the open interface: the call, then the listener's run.\<close>

definition rl_close :: "'v event list" where
  "rl_close = RlClose # exit_closed"

text \<open>
  From the \<open>line\<close> listener the interface is open: the farewell, then \<open>rl.close()\<close>,
  inside which the listener says farewell again and exits; the \<open>process.exit(0)\<close>
  that follows \<open>rl.close()\<close> is not reached.
\<close>

definition exit_repl :: "'v event list" where
  "exit_repl = andThen (ConsoleLog [Text (nl # ''Goodbye!'')] # rl_close) [ProcessExit 0]"


section \<open>The command loop\<close>

text \<open>The listener of the \<open>line\<close> event.\<close>

definition on_line :: "session \<Rightarrow> 'v world \<Rightarrow> string \<Rightarrow> 'v event list" where
  "on_line s w input =
     (let trimmed = trim input
      in if trimmed = [] then [Prompt]
         else if toLowerCase trimmed = ''.exit'' \<or> toLowerCase trimmed = ''.quit''
         then exit_repl
         else if toLowerCase trimmed = ''.help'' then showHelp @ [Prompt]
         else if toLowerCase trimmed = ''.tables'' then showTables s w @ [Prompt]
         else if startsWith (toLowerCase trimmed) ''.schema''
         then (let tableName = at_index (split (CHR '' '') trimmed) 1
               in showSchema s w tableName @ [Prompt])
         else executeSQL s w trimmed @ [Prompt])"

definition banner_text :: "session \<Rightarrow> string" where
  "banner_text s = join [nl]
     ['''',
      ''SQLite REPL for '' @ databaseName s,
      ''Connected to D1 database via Wrangler'',
      '''',
      ''Type .help for available commands'',
      ''Type .exit or .quit to close'',
      ''    '']"

definition start :: "session \<Rightarrow> 'v event list" where
  "start s = [ConsoleLog [Text (banner_text s)], Prompt]"

text \<open>
  The session over the lines that arrive, each with the world it is handled in: a
  line whose handling exits the process ends the run, and at the end of the input
  readline closes the interface and emits \<open>close\<close>, whose listener is \<open>exit()\<close>.
\<close>

fun run_lines :: "session \<Rightarrow> ('v world \<times> string) list \<Rightarrow> 'v event list" where
  "run_lines s [] = exit_closed"
| "run_lines s ((w, input) # rest) =
     (let evs = on_line s w input
      in if exited evs then evs else evs @ run_lines s rest)"

text \<open>
  The whole program on the arguments of the process: \<open>parseArgs\<close>, whose exception
  nothing catches, then the rest of the top of the module, then the REPL.
\<close>

definition program :: "string list \<Rightarrow> ('v world \<times> string) list \<Rightarrow> 'v event list" where
  "program args inputs =
     (case parseArgs args of
        Inl e \<Rightarrow> [Uncaught e]
      | Inr a \<Rightarrow>
          (case startup a of
             (evs, None) \<Rightarrow> evs
           | (evs, Some s) \<Rightarrow> evs @ start s @ run_lines s inputs))"


section \<open>Observations and the specification's side\<close>

text \<open>The argument vectors (command first) of the child processes a run spawns.\<close>

fun spawned_argvs :: "'v event list \<Rightarrow> string list list" where
  "spawned_argvs [] = []"
| "spawned_argvs (SpawnSync c args # evs) = (c # args) # spawned_argvs evs"
| "spawned_argvs (e # evs) = spawned_argvs evs"





text \<open>
  A world to build examples from: no environment variable, the root as working
  directory, no file, and a child that exits with status 0 and prints \<open>[]\<close>.
\<close>

definition quiet_world :: "'v world" where
  "quiet_world =
     \<lparr>npm_config_user_agent = None, env_DEBUG = None, cwd = [],
      existsSync = (\<lambda>p. False),
      spawnSync = (\<lambda>c args. \<lparr>error = None, status = Some 0, stdout = ''[]''\<rparr>),
      JSON_parse = (\<lambda>out. if out = ''[]'' then Some [] else None)\<rparr>"

text \<open>
  Case-insensitive comparison as the specification means it for the dot-commands,
  which are ASCII: two strings are the same once \<open>a\<close>..\<open>z\<close> are replaced by
  \<open>A\<close>..\<open>Z\<close>.
\<close>

definition ascii_upper :: "char \<Rightarrow> char" where
  "ascii_upper c =
     (let n = (of_char c :: nat)
      in if 97 \<le> n \<and> n \<le> 122 then char_of (n - 32) else c)"

definition caseless_eq :: "string \<Rightarrow> string \<Rightarrow> bool" where
  "caseless_eq a b = (map ascii_upper a = map ascii_upper b)"

text \<open>
  The part of a line between its first and its second space (up to the end when
  there is no second space); nothing when the line has no space.
\<close>

definition between_spaces :: "string \<Rightarrow> string option" where
  "between_spaces t =
     (if CHR '' '' \<in> set t
      then Some (takeWhile (\<lambda>c. c \<noteq> CHR '' '') (tl (dropWhile (\<lambda>c. c \<noteq> CHR '' '') t)))
      else None)"

text \<open>
  The SQL string literal that denotes a given text: the text between single quotes,
  each single quote of the text doubled. A query that looks a table up by name is
  well-formed, and about that name, when the name is written this way.
\<close>

definition sql_quoted :: "string \<Rightarrow> string" where
  "sql_quoted t = [sq] @ concat (map (\<lambda>c. if c = sq then [sq, sq] else [c]) t) @ [sq]"

text \<open>
  The argument vectors one expects: each argument is one of the six spellings of the
  three flags, or does not start with a dash (a positional).
\<close>

definition positional_arg :: "string \<Rightarrow> bool" where
  "positional_arg x = (x = [] \<or> hd x \<noteq> CHR ''-'')"

definition expected_args :: "string list \<Rightarrow> bool" where
  "expected_args args =
     list_all (\<lambda>x. x \<in> set [''--local'', ''-l'', ''--remote'', ''-r'', ''--help'', ''-h''] \<or>
                    positional_arg x) args"

section \<open>Startup arguments\<close>

lemma argsToTokens_flags:
  "argsToTokens (''--local'' # rest) = OptionToken ''local'' ''--local'' None # argsToTokens rest"
  "argsToTokens (''-l'' # rest) = OptionToken ''local'' ''-l'' None # argsToTokens rest"
  "argsToTokens (''--remote'' # rest) =
     OptionToken ''remote'' ''--remote'' None # argsToTokens rest"
  "argsToTokens (''-r'' # rest) = OptionToken ''remote'' ''-r'' None # argsToTokens rest"
  "argsToTokens (''--help'' # rest) = OptionToken ''help'' ''--help'' None # argsToTokens rest"
  "argsToTokens (''-h'' # rest) = OptionToken ''help'' ''-h'' None # argsToTokens rest"
  by (subst argsToTokens.simps,
      simp add: isLoneShortOption_def isShortOptionGroup_def isLoneLongOption_def
        startsWith_def findLongOptionForShort_def)+

lemma argsToTokens_positional:
  assumes "positional_arg x"
  shows "argsToTokens (x # rest) = PositionalToken x # argsToTokens rest"
proof (cases x)
  case Nil
  then show ?thesis
    by (subst argsToTokens.simps)
      (simp add: isLoneShortOption_def isShortOptionGroup_def isLoneLongOption_def
        isLongOptionAndValue_def)
next
  case (Cons c cs)
  with assms have "c \<noteq> CHR ''-''"
    by (simp add: positional_arg_def)
  with Cons show ?thesis
    by (subst argsToTokens.simps)
      (auto simp: isLoneShortOption_def isShortOptionGroup_def isLoneLongOption_def
        isLongOptionAndValue_def startsWith_def)
qed

lemma flags_not_positional:
  "\<not> positional_arg ''--local''" "\<not> positional_arg ''-l''" "\<not> positional_arg ''--remote''"
  "\<not> positional_arg ''-r''" "\<not> positional_arg ''--help''" "\<not> positional_arg ''-h''"
  by (simp_all add: positional_arg_def)

lemma storeTokens_expected:
  "expected_args args \<Longrightarrow>
     storeTokens (argsToTokens args) r =
       Inr \<lparr>values_local = (values_local r \<or> ''--local'' \<in> set args \<or> ''-l'' \<in> set args),
            values_remote = (values_remote r \<or> ''--remote'' \<in> set args \<or> ''-r'' \<in> set args),
            values_help = (values_help r \<or> ''--help'' \<in> set args \<or> ''-h'' \<in> set args),
            positionals = positionals r @ filter positional_arg args\<rparr>"
proof (induction args arbitrary: r)
  case Nil
  show ?case
    by (simp add: argsToTokens.simps)
next
  case (Cons x args)
  from Cons.prems have rest: "expected_args args"
    and x: "x \<in> set [''--local'', ''-l'', ''--remote'', ''-r'', ''--help'', ''-h''] \<or>
            positional_arg x"
    by (simp_all add: expected_args_def)
  note ih = Cons.IH [OF rest]
  from x consider
    (f1) "x = ''--local''" | (f2) "x = ''-l''" | (f3) "x = ''--remote''" |
    (f4) "x = ''-r''" | (f5) "x = ''--help''" | (f6) "x = ''-h''" | (pos) "positional_arg x"
    by auto
  then show ?case
  proof cases
    case f1
    then show ?thesis
      by (simp add: argsToTokens_flags ih flags_not_positional)
  next
    case f2
    then show ?thesis
      by (simp add: argsToTokens_flags ih flags_not_positional)
  next
    case f3
    then show ?thesis
      by (simp add: argsToTokens_flags ih flags_not_positional)
  next
    case f4
    then show ?thesis
      by (simp add: argsToTokens_flags ih flags_not_positional)
  next
    case f5
    then show ?thesis
      by (simp add: argsToTokens_flags ih flags_not_positional)
  next
    case f6
    then show ?thesis
      by (simp add: argsToTokens_flags ih flags_not_positional)
  next
    case pos
    with flags_not_positional have "x \<noteq> ''--local''" "x \<noteq> ''-l''" "x \<noteq> ''--remote''"
      "x \<noteq> ''-r''" "x \<noteq> ''--help''" "x \<noteq> ''-h''"
      by auto
    with pos show ?thesis
      by (simp add: argsToTokens_positional ih)
  qed
qed

lemma parseArgs_expected:
  "expected_args args \<Longrightarrow>
     parseArgs args =
       Inr \<lparr>values_local = (''--local'' \<in> set args \<or> ''-l'' \<in> set args),
            values_remote = (''--remote'' \<in> set args \<or> ''-r'' \<in> set args),
            values_help = (''--help'' \<in> set args \<or> ''-h'' \<in> set args),
            positionals = filter positional_arg args\<rparr>"
  by (simp add: parseArgs_def storeTokens_expected)

lemmas parse_eval =
  parseArgs_def argsToTokens.simps isLoneShortOption_def isShortOptionGroup_def
  isLoneLongOption_def isLongOptionAndValue_def startsWith_def findLongOptionForShort_def
  indexOf_def

text \<open>
  C10, as stated: every argument vector with \<open>--help\<close> prints the usage text and
  exits with code 0. The strict \<open>parseArgs\<close> call comes before the test of
  \<open>values.help\<close>: with \<open>--help --bogus\<close> it throws on the unknown option, nothing
  catches the exception, and the run is that uncaught exception (exit code 1), with
  no usage text.
\<close>

theorem help_takes_precedence_counterexample:
  "''--help'' \<in> set [''--help'', ''--bogus''] \<and>
   program [''--help'', ''--bogus''] ([] :: (unit world \<times> string) list) =
     [Uncaught (UnknownOption ''--bogus'')] \<and>
   ConsoleLog [Text usage_text] \<notin>
     set (program [''--help'', ''--bogus''] ([] :: (unit world \<times> string) list))"
  by (simp add: program_def parse_eval)

text \<open>
  C10, amended: for every argument vector that \<open>parseArgs\<close> accepts (no unknown
  option, no value given to a flag) and in which \<open>--help\<close> or \<open>-h\<close> is set, the
  program prints the usage text and exits with code 0 and does nothing else, also
  when the database name is missing or both \<open>--local\<close> and \<open>--remote\<close> are given:
  neither the missing-name nor the conflict message appears. In particular this is
  so for every vector made of the six flag spellings and of arguments without a
  leading dash that contains \<open>--help\<close> or \<open>-h\<close>.
\<close>

theorem help_takes_precedence:
  "(parseArgs args = Inr a \<and> values_help a \<longrightarrow>
      program args inputs = [ConsoleLog [Text usage_text], ProcessExit 0] \<and>
      ConsoleError [Text ''Database name is required''] \<notin> set (program args inputs) \<and>
      ConsoleError [Text ''Cannot use both local and remote flags''] \<notin>
        set (program args inputs)) \<and>
   (expected_args args \<and> (''--help'' \<in> set args \<or> ''-h'' \<in> set args) \<longrightarrow>
      program args inputs = [ConsoleLog [Text usage_text], ProcessExit 0])"
proof (intro conjI impI)
  assume "parseArgs args = Inr a \<and> values_help a"
  then show run: "program args inputs = [ConsoleLog [Text usage_text], ProcessExit 0]"
    by (simp add: program_def startup_def)
  show "ConsoleError [Text ''Database name is required''] \<notin> set (program args inputs)"
    by (simp add: run)
  show "ConsoleError [Text ''Cannot use both local and remote flags''] \<notin>
      set (program args inputs)"
    by (simp add: run)
next
  assume "expected_args args \<and> (''--help'' \<in> set args \<or> ''-h'' \<in> set args)"
  then show "program args inputs = [ConsoleLog [Text usage_text], ProcessExit 0]"
    by (simp add: program_def parseArgs_expected startup_def)
qed

theorem help_takes_precedence_witness:
  "parseArgs [''--remote'', ''-lh''] =
     Inr \<lparr>values_local = True, values_remote = True, values_help = True, positionals = []\<rparr> \<and>
   program [''--remote'', ''-lh''] ([] :: (unit world \<times> string) list) =
     [ConsoleLog [Text usage_text], ProcessExit 0] \<and>
   program [''--local'', ''--help'', ''--remote''] ([] :: (unit world \<times> string) list) =
     [ConsoleLog [Text usage_text], ProcessExit 0]"
proof -
  have p: "parseArgs [''--remote'', ''-lh''] =
     Inr \<lparr>values_local = True, values_remote = True, values_help = True, positionals = []\<rparr>"
    by (simp add: parse_eval)
  then have h1: "parseArgs [''--remote'', ''-lh''] =
       Inr \<lparr>values_local = True, values_remote = True, values_help = True, positionals = []\<rparr> \<and>
     values_help \<lparr>values_local = True, values_remote = True, values_help = True,
                  positionals = []\<rparr>"
    by simp
  have c1: "program [''--remote'', ''-lh''] ([] :: (unit world \<times> string) list) =
     [ConsoleLog [Text usage_text], ProcessExit 0]"
    by (rule help_takes_precedence [THEN conjunct1, THEN mp, OF h1, THEN conjunct1])
  have h2: "expected_args [''--local'', ''--help'', ''--remote''] \<and>
     (''--help'' \<in> set [''--local'', ''--help'', ''--remote''] \<or>
      ''-h'' \<in> set [''--local'', ''--help'', ''--remote''])"
    by (simp add: expected_args_def)
  have c2: "program [''--local'', ''--help'', ''--remote''] ([] :: (unit world \<times> string) list) =
     [ConsoleLog [Text usage_text], ProcessExit 0]"
    by (rule help_takes_precedence [THEN conjunct2, THEN mp, OF h2])
  from p c1 c2 show ?thesis
    by (simp only: simp_thms)
qed

text \<open>
  C4, as stated: every argument vector with a missing database name, or with both
  locality flags, ends in exit code 1 with the missing-name or the conflict message.
  It fails when \<open>--help\<close> is given as well: with no positional argument and both
  flags set, the program prints the usage text and exits with code 0. It also fails
  when \<open>parseArgs\<close> rejects the vector: \<open>--bogus\<close> alone has no database name, and
  the run is the uncaught exception, with no missing-name message.
\<close>

theorem startup_errors_exit_1_counterexample:
  "parseArgs [''--help'', ''--local'', ''--remote''] =
     Inr \<lparr>values_local = True, values_remote = True, values_help = True, positionals = []\<rparr> \<and>
   program [''--help'', ''--local'', ''--remote''] ([] :: (unit world \<times> string) list) =
     [ConsoleLog [Text usage_text], ProcessExit 0] \<and>
   program [''--bogus''] ([] :: (unit world \<times> string) list) =
     [Uncaught (UnknownOption ''--bogus'')]"
  by (simp add: program_def startup_def parse_eval)

text \<open>
  C4, amended: for every argument vector that \<open>parseArgs\<close> accepts and in which
  \<open>--help\<close> is absent, a missing (or empty) database name makes the whole run
  consist of the missing-name message on the error stream and exit code 1; a present
  name with both \<open>--local\<close> and \<open>--remote\<close> makes it consist of the conflict
  message and exit code 1. In both cases nothing of the REPL happens: no banner, no
  prompt, no line is read. In particular this is so for the vectors made of the six
  flag spellings and of arguments without a leading dash, read flag by flag.
\<close>

theorem startup_errors_exit_1:
  "(parseArgs args = Inr a \<and> \<not> values_help a \<longrightarrow>
      (\<not> truthy (at_index (positionals a) 0) \<longrightarrow>
         program args inputs =
           [ConsoleError [Text ''Database name is required''], ProcessExit 1]) \<and>
      (truthy (at_index (positionals a) 0) \<and> values_local a \<and> values_remote a \<longrightarrow>
         program args inputs =
           [ConsoleError [Text ''Cannot use both local and remote flags''], ProcessExit 1])) \<and>
   (expected_args args \<and> ''--help'' \<notin> set args \<and> ''-h'' \<notin> set args \<longrightarrow>
      (\<not> truthy (at_index (filter positional_arg args) 0) \<longrightarrow>
         program args inputs =
           [ConsoleError [Text ''Database name is required''], ProcessExit 1]) \<and>
      (truthy (at_index (filter positional_arg args) 0) \<and>
       (''--local'' \<in> set args \<or> ''-l'' \<in> set args) \<and>
       (''--remote'' \<in> set args \<or> ''-r'' \<in> set args) \<longrightarrow>
         program args inputs =
           [ConsoleError [Text ''Cannot use both local and remote flags''], ProcessExit 1]))"
proof -
  have general: "program args inputs =
        [ConsoleError [Text ''Database name is required''], ProcessExit 1]"
    if "parseArgs args = Inr b" "\<not> values_help b" "\<not> truthy (at_index (positionals b) 0)"
    for b
    using that by (auto simp: program_def startup_def split: option.splits)
  have conflict: "program args inputs =
        [ConsoleError [Text ''Cannot use both local and remote flags''], ProcessExit 1]"
    if "parseArgs args = Inr b" "\<not> values_help b" "truthy (at_index (positionals b) 0)"
      "values_local b" "values_remote b"
    for b
    using that
    by (cases "at_index (positionals b) 0") (auto simp: program_def startup_def)
  show ?thesis
  proof (intro conjI impI)
    assume "parseArgs args = Inr a \<and> \<not> values_help a"
      and "\<not> truthy (at_index (positionals a) 0)"
    then show "program args inputs =
        [ConsoleError [Text ''Database name is required''], ProcessExit 1]"
      by (intro general [of a]) simp_all
  next
    assume "parseArgs args = Inr a \<and> \<not> values_help a"
      and "truthy (at_index (positionals a) 0) \<and> values_local a \<and> values_remote a"
    then show "program args inputs =
        [ConsoleError [Text ''Cannot use both local and remote flags''], ProcessExit 1]"
      by (intro conflict [of a]) simp_all
  next
    assume e: "expected_args args \<and> ''--help'' \<notin> set args \<and> ''-h'' \<notin> set args"
      and "\<not> truthy (at_index (filter positional_arg args) 0)"
    then show "program args inputs =
        [ConsoleError [Text ''Database name is required''], ProcessExit 1]"
      by (intro general [OF parseArgs_expected [of args]]) simp_all
  next
    assume e: "expected_args args \<and> ''--help'' \<notin> set args \<and> ''-h'' \<notin> set args"
      and "truthy (at_index (filter positional_arg args) 0) \<and>
       (''--local'' \<in> set args \<or> ''-l'' \<in> set args) \<and>
       (''--remote'' \<in> set args \<or> ''-r'' \<in> set args)"
    then show "program args inputs =
        [ConsoleError [Text ''Cannot use both local and remote flags''], ProcessExit 1]"
      by (intro conflict [OF parseArgs_expected [of args]]) simp_all
  qed
qed

theorem startup_errors_exit_1_witness:
  "program [''--local''] ([] :: (unit world \<times> string) list) =
     [ConsoleError [Text ''Database name is required''], ProcessExit 1] \<and>
   program [''-lr'', ''db''] ([] :: (unit world \<times> string) list) =
     [ConsoleError [Text ''Cannot use both local and remote flags''], ProcessExit 1] \<and>
   program [''db'', ''--remote'', ''-l''] ([] :: (unit world \<times> string) list) =
     [ConsoleError [Text ''Cannot use both local and remote flags''], ProcessExit 1]"
proof -
  have h1: "expected_args [''--local''] \<and> ''--help'' \<notin> set [''--local''] \<and>
      ''-h'' \<notin> set [''--local'']"
    by (simp add: expected_args_def)
  have n1: "\<not> truthy (at_index (filter positional_arg [''--local'']) 0)"
    by (simp add: positional_arg_def)
  have c1: "program [''--local''] ([] :: (unit world \<times> string) list) =
     [ConsoleError [Text ''Database name is required''], ProcessExit 1]"
    by (rule startup_errors_exit_1 [THEN conjunct2, THEN mp, OF h1,
          THEN conjunct1, THEN mp, OF n1])
  have h2: "parseArgs [''-lr'', ''db''] =
       Inr \<lparr>values_local = True, values_remote = True, values_help = False,
            positionals = [''db'']\<rparr> \<and>
      \<not> values_help \<lparr>values_local = True, values_remote = True, values_help = False,
                     positionals = [''db'']\<rparr>"
    by (simp add: parse_eval)
  have n2: "truthy (at_index (positionals \<lparr>values_local = True, values_remote = True,
        values_help = False, positionals = [''db'']\<rparr>) 0) \<and>
      values_local \<lparr>values_local = True, values_remote = True, values_help = False,
                    positionals = [''db'']\<rparr> \<and>
      values_remote \<lparr>values_local = True, values_remote = True, values_help = False,
                     positionals = [''db'']\<rparr>"
    by simp
  have c2: "program [''-lr'', ''db''] ([] :: (unit world \<times> string) list) =
     [ConsoleError [Text ''Cannot use both local and remote flags''], ProcessExit 1]"
    by (rule startup_errors_exit_1 [THEN conjunct1, THEN mp, OF h2, THEN conjunct2, THEN mp,
          OF n2])
  have h3: "expected_args [''db'', ''--remote'', ''-l''] \<and>
      ''--help'' \<notin> set [''db'', ''--remote'', ''-l''] \<and>
      ''-h'' \<notin> set [''db'', ''--remote'', ''-l'']"
    by (simp add: expected_args_def positional_arg_def)
  have n3: "truthy (at_index (filter positional_arg [''db'', ''--remote'', ''-l'']) 0) \<and>
      (''--local'' \<in> set [''db'', ''--remote'', ''-l''] \<or>
       ''-l'' \<in> set [''db'', ''--remote'', ''-l'']) \<and>
      (''--remote'' \<in> set [''db'', ''--remote'', ''-l''] \<or>
       ''-r'' \<in> set [''db'', ''--remote'', ''-l''])"
    by (simp add: positional_arg_def)
  have c3: "program [''db'', ''--remote'', ''-l''] ([] :: (unit world \<times> string) list) =
     [ConsoleError [Text ''Cannot use both local and remote flags''], ProcessExit 1]"
    by (rule startup_errors_exit_1 [THEN conjunct2, THEN mp, OF h3,
          THEN conjunct2, THEN mp, OF n3])
  from c1 c2 c3 show ?thesis
    by (simp only: simp_thms)
qed


section \<open>The subprocess invocation\<close>

lemma findPackageManager_from_root: "findPackageManager_from ex [] = ''npx''"
  by (subst findPackageManager_from.simps) (simp add: dirname_def)

lemma spawned_argvs_append: "spawned_argvs (xs @ ys) = spawned_argvs xs @ spawned_argvs ys"
  by (induction xs rule: spawned_argvs.induct) simp_all

lemma spawned_argvs_show_item: "spawned_argvs (show_item item) = []"
  by (simp add: show_item_def displayResults_def split: option.splits)

lemma spawned_argvs_show_items: "spawned_argvs (show_items items) = []"
  by (induction items) (simp_all add: spawned_argvs_append spawned_argvs_show_item)

lemma launcher_nonempty: "\<exists>c r. launcher w = c # r"
  by (simp add: launcher_def Let_def)

lemma spawned_argvs_executeSQL:
  "spawned_argvs (executeSQL s w sql) = [build_args s w sql]"
proof -
  obtain c r where "launcher w = c # r"
    using launcher_nonempty by blast
  then obtain r' where b: "build_args s w sql = c # r'"
    by (simp add: build_args_def)
  show ?thesis
    by (simp add: executeSQL_def b spawned_argvs_append execution_failed_def
        spawned_argvs_show_items Let_def split: option.splits)
qed

text \<open>
  C1. In a session that startup let through, every call of the executor spawns
  exactly one child, and its argument vector is the launcher prefix followed by
  \<open>d1\<close>, \<open>execute\<close>, the database name (the first positional argument), then
  \<open>--local\<close> if the local flag was given or \<open>--remote\<close> if the remote flag was given
  (never both, possibly neither), then \<open>--json\<close>, \<open>--command\<close> and the SQL text,
  unchanged, as the last argument.
\<close>

theorem spawn_arguments:
  "startup a = (evs, Some s) \<Longrightarrow>
     spawned_argvs (executeSQL s w sql) =
       [launcher w @ [''d1'', ''execute'', databaseName s] @
        (if values_local a then [''--local''] else if values_remote a then [''--remote'']
         else []) @
        [''--json'', ''--command'', sql]] \<and>
     at_index (positionals a) 0 = Some (databaseName s) \<and>
     \<not> (values_local a \<and> values_remote a)"
  by (auto simp: spawned_argvs_executeSQL build_args_def startup_def build_flags_def
      split: if_splits option.splits)

theorem spawn_arguments_witness:
  "startup \<lparr>values_local = False, values_remote = True, values_help = False,
            positionals = [''my-db'']\<rparr> =
     ([] :: unit event list, Some \<lparr>databaseName = ''my-db'', flags = [''--remote'']\<rparr>) \<and>
   spawned_argvs (executeSQL \<lparr>databaseName = ''my-db'', flags = [''--remote'']\<rparr>
                    (quiet_world :: unit world) ''SELECT 1;'') =
     [[''npx'', ''wrangler'', ''d1'', ''execute'', ''my-db'', ''--remote'', ''--json'',
       ''--command'', ''SELECT 1;'']]"
proof -
  have st: "startup \<lparr>values_local = False, values_remote = True, values_help = False,
                     positionals = [''my-db'']\<rparr> =
     ([] :: unit event list, Some \<lparr>databaseName = ''my-db'', flags = [''--remote'']\<rparr>)"
    by (simp add: startup_def build_flags_def)
  have l: "launcher (quiet_world :: unit world) = [''npx'', ''wrangler'']"
    by (simp add: quiet_world_def launcher_def findPackageManager_def
        findPackageManager_from_root)
  show ?thesis
    using spawn_arguments [OF st, of "quiet_world :: unit world" "''SELECT 1;''"] st l
    by simp
qed

section \<open>Launcher selection\<close>











section \<open>The executor's outcomes\<close>

lemmas string_eval =
  trim_def is_whitespace_def toLowerCase_def lower_char_def char_of_eq_iff startsWith_def

lemma executeSQL_spawned:
  assumes "build_args s w sql = c # args"
  shows "executeSQL s w sql =
     ConsoleLog [Text (nl # ''Executing: '' @ sql)] #
     (if truthy (env_DEBUG w)
      then [ConsoleLog [Text (''Using command: '' @ c @ '' '' @ join '' '' args)]]
      else []) @
     SpawnSync c args #
     (case error (spawnSync w c args) of
        Some e \<Rightarrow> execution_failed (SpawnError e)
      | None \<Rightarrow>
          if status (spawnSync w c args) \<noteq> Some 0
          then execution_failed
                 (CommandFailed (status (spawnSync w c args)) (stdout (spawnSync w c args)))
          else
            (case JSON_parse w (stdout (spawnSync w c args)) of
               None \<Rightarrow> execution_failed SyntaxError
             | Some parsed \<Rightarrow> show_items parsed))"
  using assms by (simp add: executeSQL_def Let_def)

lemma exited_append: "exited (xs @ ys) = (exited xs \<or> exited ys)"
  by (simp add: exited_def)

lemma show_item_not_exited: "\<not> exited (show_item item)"
  by (simp add: exited_def show_item_def displayResults_def split: option.splits)

lemma show_items_not_exited: "\<not> exited (show_items items)"
proof (induction items)
  case Nil
  show ?case by (simp add: exited_def)
next
  case (Cons item items)
  then show ?case by (simp add: exited_append show_item_not_exited)
qed

lemma executeSQL_not_exited: "\<not> exited (executeSQL s w sql)"
proof -
  obtain c r where "launcher w = c # r"
    using launcher_nonempty by blast
  then obtain args where b: "build_args s w sql = c # args"
    by (simp add: build_args_def)
  have tail: "\<not> list_ex is_exit (show_items parsed)" for parsed :: "'a D1Result list"
    using show_items_not_exited [of parsed] by (simp add: exited_def)
  show ?thesis
    unfolding executeSQL_spawned [OF b]
    by (simp add: exited_def execution_failed_def tail split: option.splits)
qed

lemma run_lines_continues:
  "\<not> exited (on_line s w input) \<Longrightarrow>
     run_lines s ((w, input) # rest) = on_line s w input @ run_lines s rest"
  by (simp add: Let_def)

text \<open>
  C2. Whenever the child reports a spawn error, or a status other than 0, or prints
  something \<open>JSON.parse\<close> rejects, the executor's run is: the \<open>Executing\<close> line, the
  debug line if \<open>DEBUG\<close> is set, the spawn, and one \<open>Execution failed:\<close> message on
  the error stream carrying the caught error; nothing exits the process, and the line
  that made the attempt is followed by the prompt and by the handling of the lines
  that come after it.
\<close>

theorem execution_failures_return_to_prompt:
  assumes "build_args s w sql = c # args"
    and "error (spawnSync w c args) \<noteq> None \<or> status (spawnSync w c args) \<noteq> Some 0 \<or>
         JSON_parse w (stdout (spawnSync w c args)) = None"
  shows "executeSQL s w sql =
       ConsoleLog [Text (nl # ''Executing: '' @ sql)] #
       (if truthy (env_DEBUG w)
        then [ConsoleLog [Text (''Using command: '' @ c @ '' '' @ join '' '' args)]]
        else []) @
       [SpawnSync c args,
        ConsoleError
          [Text ''Execution failed:'',
           Thrown (case error (spawnSync w c args) of
                     Some e \<Rightarrow> SpawnError e
                   | None \<Rightarrow>
                       if status (spawnSync w c args) \<noteq> Some 0
                       then CommandFailed (status (spawnSync w c args))
                              (stdout (spawnSync w c args))
                       else SyntaxError)]] \<and>
     \<not> exited (executeSQL s w sql @ [Prompt]) \<and>
     (on_line s w input = executeSQL s w sql @ [Prompt] \<longrightarrow>
        run_lines s ((w, input) # rest) = executeSQL s w sql @ [Prompt] @ run_lines s rest)"
proof (intro conjI impI)
  show "executeSQL s w sql =
       ConsoleLog [Text (nl # ''Executing: '' @ sql)] #
       (if truthy (env_DEBUG w)
        then [ConsoleLog [Text (''Using command: '' @ c @ '' '' @ join '' '' args)]]
        else []) @
       [SpawnSync c args,
        ConsoleError
          [Text ''Execution failed:'',
           Thrown (case error (spawnSync w c args) of
                     Some e \<Rightarrow> SpawnError e
                   | None \<Rightarrow>
                       if status (spawnSync w c args) \<noteq> Some 0
                       then CommandFailed (status (spawnSync w c args))
                              (stdout (spawnSync w c args))
                       else SyntaxError)]]"
    unfolding executeSQL_spawned [OF assms(1)]
    using assms(2)
    by (auto simp: execution_failed_def split: option.splits)
next
  show ne: "\<not> exited (executeSQL s w sql @ [Prompt])"
    using executeSQL_not_exited [of s w sql] by (simp add: exited_def)
  assume "on_line s w input = executeSQL s w sql @ [Prompt]"
  with ne run_lines_continues [of s w input rest]
  show "run_lines s ((w, input) # rest) = executeSQL s w sql @ [Prompt] @ run_lines s rest"
    by simp
qed

theorem execution_failures_return_to_prompt_witness:
  "run_lines \<lparr>databaseName = ''db'', flags = []\<rparr>
     [((quiet_world :: unit world)
         \<lparr>spawnSync := (\<lambda>c args. \<lparr>error = None, status = Some 1, stdout = ''boom''\<rparr>)\<rparr>,
       '' SELECT 1; '')] =
   [ConsoleLog [Text (nl # ''Executing: SELECT 1;'')],
    SpawnSync ''npx'' [''wrangler'', ''d1'', ''execute'', ''db'', ''--json'', ''--command'',
                       ''SELECT 1;''],
    ConsoleError [Text ''Execution failed:'', Thrown (CommandFailed (Some 1) ''boom'')],
    Prompt] @ exit_closed"
proof -
  let ?w = "(quiet_world :: unit world)
         \<lparr>spawnSync := (\<lambda>c args. \<lparr>error = None, status = Some 1, stdout = ''boom''\<rparr>)\<rparr>"
  let ?s = "\<lparr>databaseName = ''db'', flags = []\<rparr>"
  have b: "build_args ?s ?w ''SELECT 1;'' =
      ''npx'' # [''wrangler'', ''d1'', ''execute'', ''db'', ''--json'', ''--command'',
                 ''SELECT 1;'']"
    by (simp add: build_args_def launcher_def quiet_world_def findPackageManager_def
        findPackageManager_from_root)
  have f: "error (spawnSync ?w ''npx'' [''wrangler'', ''d1'', ''execute'', ''db'', ''--json'',
             ''--command'', ''SELECT 1;'']) \<noteq> None \<or>
           status (spawnSync ?w ''npx'' [''wrangler'', ''d1'', ''execute'', ''db'', ''--json'',
             ''--command'', ''SELECT 1;'']) \<noteq> Some 0 \<or>
           JSON_parse ?w (stdout (spawnSync ?w ''npx'' [''wrangler'', ''d1'', ''execute'', ''db'',
             ''--json'', ''--command'', ''SELECT 1;''])) = None"
    by simp
  have l: "on_line ?s ?w '' SELECT 1; '' = executeSQL ?s ?w ''SELECT 1;'' @ [Prompt]"
    by (simp add: on_line_def string_eval)
  note t = execution_failures_return_to_prompt [OF b f, of "'' SELECT 1; ''" "[]"]
  from t have e: "executeSQL ?s ?w ''SELECT 1;'' =
      [ConsoleLog [Text (nl # ''Executing: SELECT 1;'')],
       SpawnSync ''npx'' [''wrangler'', ''d1'', ''execute'', ''db'', ''--json'', ''--command'',
                          ''SELECT 1;''],
       ConsoleError [Text ''Execution failed:'', Thrown (CommandFailed (Some 1) ''boom'')]]"
    by (simp add: quiet_world_def)
  from t l have "run_lines ?s [(?w, '' SELECT 1; '')] =
      executeSQL ?s ?w ''SELECT 1;'' @ [Prompt] @ run_lines ?s []"
    by blast
  then show ?thesis
    by (simp only: e run_lines.simps append.simps)
qed

section \<open>Rendering the response\<close>

lemma show_items_concat: "show_items items = concat (map show_item items)"
  by (induction items) simp_all

lemma execution_failed_not_shown:
  "ConsoleError [Text ''Execution failed:'', Thrown e] \<notin> set (show_items items)"
  by (induction items) (auto simp: show_item_def displayResults_def split: option.splits if_splits)

text \<open>
  C3. When the child exits with status 0 and its output parses, the executor prints,
  after the spawn, the renderings of the batches one after the other in the order of
  the array. A batch whose success flag is true gives the \<open>Success\<close> notice, then the
  dump of its rows if there is at least one row and the \<open>No results returned\<close> notice
  otherwise, then a \<open>Meta:\<close> line only if its metadata has at least one entry. A batch
  whose success flag is false gives the \<open>Query failed\<close> notice and a \<open>Meta:\<close> line
  with its metadata, both on the error stream; it raises nothing: no
  \<open>Execution failed:\<close> message appears, the later batches are rendered, and nothing
  exits the process.
\<close>

theorem batches_rendered_in_order:
  assumes "build_args s w sql = c # args"
    and "error (spawnSync w c args) = None"
    and "status (spawnSync w c args) = Some 0"
    and "JSON_parse w (stdout (spawnSync w c args)) = Some items"
  shows "executeSQL s w sql =
       ConsoleLog [Text (nl # ''Executing: '' @ sql)] #
       (if truthy (env_DEBUG w)
        then [ConsoleLog [Text (''Using command: '' @ c @ '' '' @ join '' '' args)]]
        else []) @
       SpawnSync c args # concat (map show_item items) \<and>
     (success item \<longrightarrow>
        show_item item =
          ConsoleLog [Text ''Success''] #
          (case results item of
             Some (r # rs) \<Rightarrow> [ConsoleLog [Stringify2 (r # rs)]]
           | _ \<Rightarrow> [ConsoleLog [Text ''No results returned'']]) @
          (case meta item of
             Some (e # m) \<Rightarrow> [ConsoleLog [Text ''Meta:'', Object (Some (e # m))]]
           | _ \<Rightarrow> [])) \<and>
     (\<not> success item \<longrightarrow>
        show_item item =
          [ConsoleError [Text ''Query failed''],
           ConsoleError [Text ''Meta:'', Object (meta item)]]) \<and>
     ConsoleError [Text ''Execution failed:'', Thrown err] \<notin> set (executeSQL s w sql) \<and>
     \<not> exited (executeSQL s w sql)"
proof (intro conjI impI)
  show run: "executeSQL s w sql =
       ConsoleLog [Text (nl # ''Executing: '' @ sql)] #
       (if truthy (env_DEBUG w)
        then [ConsoleLog [Text (''Using command: '' @ c @ '' '' @ join '' '' args)]]
        else []) @
       SpawnSync c args # concat (map show_item items)"
    unfolding executeSQL_spawned [OF assms(1)]
    by (simp add: assms(2-4) show_items_concat)
  show "ConsoleError [Text ''Execution failed:'', Thrown err] \<notin> set (executeSQL s w sql)"
    unfolding run
    using execution_failed_not_shown [of err items]
    by (simp add: show_items_concat)
  show "\<not> exited (executeSQL s w sql)"
    by (rule executeSQL_not_exited)
next
  assume "success item"
  then show "show_item item =
          ConsoleLog [Text ''Success''] #
          (case results item of
             Some (r # rs) \<Rightarrow> [ConsoleLog [Stringify2 (r # rs)]]
           | _ \<Rightarrow> [ConsoleLog [Text ''No results returned'']]) @
          (case meta item of
             Some (e # m) \<Rightarrow> [ConsoleLog [Text ''Meta:'', Object (Some (e # m))]]
           | _ \<Rightarrow> [])"
    by (simp add: show_item_def displayResults_def split: option.splits list.splits)
next
  assume "\<not> success item"
  then show "show_item item =
          [ConsoleError [Text ''Query failed''],
           ConsoleError [Text ''Meta:'', Object (meta item)]]"
    by (simp add: show_item_def)
qed

theorem batches_rendered_in_order_witness:
  "executeSQL \<lparr>databaseName = ''db'', flags = [''--local'']\<rparr>
     ((quiet_world :: (int + string) world)
        \<lparr>spawnSync := (\<lambda>c args. \<lparr>error = None, status = Some 0, stdout = ''two batches''\<rparr>),
         JSON_parse := (\<lambda>out. if out = ''two batches''
            then Some [\<lparr>meta = Some [(''error'', Inr ''no such table'')], results = Some [],
                        success = False\<rparr>,
                       \<lparr>meta = Some [], results = Some [[(''id'', Inl 1)]], success = True\<rparr>]
            else None)\<rparr>)
     ''SELECT id FROM t;'' =
   [ConsoleLog [Text (nl # ''Executing: SELECT id FROM t;'')],
    SpawnSync ''npx'' [''wrangler'', ''d1'', ''execute'', ''db'', ''--local'', ''--json'',
                       ''--command'', ''SELECT id FROM t;''],
    ConsoleError [Text ''Query failed''],
    ConsoleError [Text ''Meta:'', Object (Some [(''error'', Inr ''no such table'')])],
    ConsoleLog [Text ''Success''],
    ConsoleLog [Stringify2 [[(''id'', Inl 1)]]]]"
proof -
  let ?bad = "\<lparr>meta = Some [(''error'', Inr ''no such table'')], results = Some [],
               success = False\<rparr> :: (int + string) D1Result"
  let ?good = "\<lparr>meta = Some [], results = Some [[(''id'', Inl 1)]], success = True\<rparr>
               :: (int + string) D1Result"
  let ?w = "(quiet_world :: (int + string) world)
        \<lparr>spawnSync := (\<lambda>c args. \<lparr>error = None, status = Some 0, stdout = ''two batches''\<rparr>),
         JSON_parse := (\<lambda>out. if out = ''two batches'' then Some [?bad, ?good] else None)\<rparr>"
  let ?s = "\<lparr>databaseName = ''db'', flags = [''--local'']\<rparr>"
  let ?args = "[''wrangler'', ''d1'', ''execute'', ''db'', ''--local'', ''--json'', ''--command'',
                ''SELECT id FROM t;'']"
  have b: "build_args ?s ?w ''SELECT id FROM t;'' = ''npx'' # ?args"
    by (simp add: build_args_def launcher_def quiet_world_def findPackageManager_def
        findPackageManager_from_root)
  have e: "error (spawnSync ?w ''npx'' ?args) = None"
    and st: "status (spawnSync ?w ''npx'' ?args) = Some 0"
    and p: "JSON_parse ?w (stdout (spawnSync ?w ''npx'' ?args)) = Some [?bad, ?good]"
    by simp_all
  note t = batches_rendered_in_order [OF b e st p]
  have bad: "show_item ?bad =
      [ConsoleError [Text ''Query failed''],
       ConsoleError [Text ''Meta:'', Object (Some [(''error'', Inr ''no such table'')])]]"
    using t [of ?bad] by simp
  have good: "show_item ?good =
      [ConsoleLog [Text ''Success''], ConsoleLog [Stringify2 [[(''id'', Inl 1)]]]]"
    using t [of ?good] by simp
  from t [of ?bad] have "executeSQL ?s ?w ''SELECT id FROM t;'' =
      ConsoleLog [Text (nl # ''Executing: '' @ ''SELECT id FROM t;'')] #
      (if truthy (env_DEBUG ?w)
       then [ConsoleLog [Text (''Using command: '' @ ''npx'' @ '' '' @ join '' '' ?args)]]
       else []) @
      SpawnSync ''npx'' ?args # concat (map show_item [?bad, ?good])"
    by blast
  then show ?thesis
    by (simp add: bad good quiet_world_def)
qed


section \<open>Trimming, case and splitting\<close>

lemma dropWhile_all: "list_all P xs \<Longrightarrow> dropWhile P xs = []"
  by (simp add: list_all_iff)

lemma trim_blank: "list_all is_whitespace input \<Longrightarrow> trim input = []"
  by (simp add: trim_def dropWhile_all)

lemma trim_padding:
  assumes "list_all is_whitespace pre" and "list_all is_whitespace post"
  shows "trim (pre @ t @ post) = trim t"
proof -
  have pre: "dropWhile is_whitespace (pre @ t @ post) = dropWhile is_whitespace (t @ post)"
    using assms(1) by (simp add: list_all_iff)
  show ?thesis
  proof (cases "list_all is_whitespace t")
    case True
    with assms(2) have a: "dropWhile is_whitespace (t @ post) = []"
      by (intro dropWhile_all) simp
    from True have b: "dropWhile is_whitespace t = []"
      by (rule dropWhile_all)
    show ?thesis
      unfolding trim_def pre a b ..
  next
    case False
    then obtain x where "x \<in> set t" "\<not> is_whitespace x"
      by (auto simp: list_all_iff)
    then have "dropWhile is_whitespace (t @ post) = dropWhile is_whitespace t @ post"
      by (simp add: dropWhile_append1)
    moreover have "dropWhile is_whitespace (rev post @ ys) = dropWhile is_whitespace ys" for ys
      using assms(2) by (intro dropWhile_append2) (simp add: list_all_iff)
    ultimately show ?thesis
      by (simp add: trim_def pre)
  qed
qed

lemma trim_stable:
  assumes "t \<noteq> []" and "\<not> is_whitespace (hd t)" and "\<not> is_whitespace (last t)"
  shows "trim t = t"
proof -
  from assms(1,2) have "dropWhile is_whitespace t = t"
    by (cases t) simp_all
  moreover from assms(1,3) have "dropWhile is_whitespace (rev t) = rev t"
    by (cases "rev t") (simp_all add: last_rev [symmetric] del: last_rev)
  ultimately show ?thesis
    by (simp add: trim_def)
qed

lemma of_char_less_256: "of_char c < (256 :: nat)"
proof -
  have "of_char c mod 256 = (of_char c :: nat)"
    by (rule of_char_mod_256)
  then show ?thesis
    by (metis mod_less_divisor zero_less_numeral)
qed

lemma of_char_lower_char:
  "(of_char (lower_char c) :: nat) =
     (if (65 \<le> (of_char c :: nat) \<and> (of_char c :: nat) \<le> 90) \<or>
         (192 \<le> (of_char c :: nat) \<and> (of_char c :: nat) \<le> 222 \<and> (of_char c :: nat) \<noteq> 215)
      then of_char c + 32 else of_char c)"
  by (simp add: lower_char_def Let_def)

lemma of_char_ascii_upper:
  "(of_char (ascii_upper c) :: nat) =
     (if 97 \<le> (of_char c :: nat) \<and> (of_char c :: nat) \<le> 122 then of_char c - 32 else of_char c)"
  by (auto simp: ascii_upper_def Let_def)

lemma lower_char_of_caseless:
  assumes "ascii_upper x = ascii_upper c"
    and "(of_char c :: nat) < 128" and "lower_char c = c"
  shows "lower_char x = c"
proof -
  from assms(1) have u: "(of_char (ascii_upper x) :: nat) = of_char (ascii_upper c)"
    by simp
  from assms(3) have l: "(of_char (lower_char c) :: nat) = of_char c"
    by simp
  have "(of_char (lower_char x) :: nat) = of_char c"
    using u l assms(2)
    unfolding of_char_lower_char of_char_ascii_upper
    by (auto split: if_splits simp del: of_char_eq_iff)
  then show ?thesis
    by simp
qed

lemma toLowerCase_of_caseless:
  assumes "caseless_eq t cmd"
    and "list_all (\<lambda>c. (of_char c :: nat) < 128 \<and> lower_char c = c) cmd"
  shows "toLowerCase t = cmd"
  using assms
proof (induction t arbitrary: cmd)
  case Nil
  then show ?case
    by (simp add: caseless_eq_def toLowerCase_def)
next
  case (Cons x t)
  from Cons.prems(1) obtain c cmd' where cmd: "cmd = c # cmd'"
    by (cases cmd) (simp_all add: caseless_eq_def)
  with Cons.prems have "ascii_upper x = ascii_upper c" "caseless_eq t cmd'"
    "(of_char c :: nat) < 128" "lower_char c = c"
    "list_all (\<lambda>c. (of_char c :: nat) < 128 \<and> lower_char c = c) cmd'"
    by (simp_all add: caseless_eq_def)
  with Cons.IH [of cmd'] lower_char_of_caseless [of x c] show ?case
    by (simp add: cmd toLowerCase_def)
qed

lemma caseless_take:
  "caseless_eq (take n t) cmd \<Longrightarrow> length cmd = n \<Longrightarrow>
     list_all (\<lambda>c. (of_char c :: nat) < 128 \<and> lower_char c = c) cmd \<Longrightarrow>
     startsWith (toLowerCase t) cmd"
  using toLowerCase_of_caseless [of "take n t" cmd]
  by (simp add: startsWith_def toLowerCase_def take_map)

lemma split_nonempty: "split sep t \<noteq> []"
  by (induction t) (simp_all split: list.splits)

lemma split_first: "at_index (split sep t) 0 = Some (takeWhile (\<lambda>c. c \<noteq> sep) t)"
  by (induction t) (auto split: list.splits)

lemma split_second:
  "at_index (split sep t) (Suc 0) =
     (if sep \<in> set t
      then Some (takeWhile (\<lambda>c. c \<noteq> sep) (tl (dropWhile (\<lambda>c. c \<noteq> sep) t)))
      else None)"
proof (induction t)
  case Nil
  show ?case by simp
next
  case (Cons c t)
  show ?case
  proof (cases "c = sep")
    case True
    then show ?thesis
      using split_first [of sep t] by simp
  next
    case False
    obtain p ps where sp: "split sep t = p # ps"
      using split_nonempty [of sep t] by (cases "split sep t") simp_all
    with False Cons.IH show ?thesis
      by simp
  qed
qed

lemma split_space_second: "at_index (split (CHR '' '') t) 1 = between_spaces t"
  by (simp add: split_second between_spaces_def)


section \<open>The command loop\<close>


lemma split_space_second_Suc: "at_index (split (CHR '' '') t) (Suc 0) = between_spaces t"
  using split_space_second [of t] by simp

lemma on_line_dispatch:
  assumes "toLowerCase (trim input) = cmd" and "cmd \<noteq> []"
  shows "on_line s w input =
     (if cmd = ''.exit'' \<or> cmd = ''.quit'' then exit_repl
      else if cmd = ''.help'' then showHelp @ [Prompt]
      else if cmd = ''.tables'' then showTables s w @ [Prompt]
      else if startsWith cmd ''.schema''
      then showSchema s w (between_spaces (trim input)) @ [Prompt]
      else executeSQL s w (trim input) @ [Prompt])"
proof -
  from assms have "trim input \<noteq> []"
    by (auto simp: toLowerCase_def)
  with assms(1) show ?thesis
    by (simp add: on_line_def Let_def split_space_second_Suc)
qed

lemma plain_commands:
  "list_all (\<lambda>c. (of_char c :: nat) < 128 \<and> lower_char c = c) ''.exit''"
  "list_all (\<lambda>c. (of_char c :: nat) < 128 \<and> lower_char c = c) ''.quit''"
  "list_all (\<lambda>c. (of_char c :: nat) < 128 \<and> lower_char c = c) ''.help''"
  "list_all (\<lambda>c. (of_char c :: nat) < 128 \<and> lower_char c = c) ''.tables''"
  "list_all (\<lambda>c. (of_char c :: nat) < 128 \<and> lower_char c = c) ''.schema''"
  by (simp_all add: lower_char_def)

lemma on_line_schema:
  assumes "caseless_eq (take 7 (trim input)) ''.schema''"
  shows "on_line s w input = showSchema s w (between_spaces (trim input)) @ [Prompt]"
proof -
  have st: "startsWith (toLowerCase (trim input)) ''.schema''"
    using assms plain_commands(5) by (intro caseless_take [of 7]) simp_all
  then have tk: "take 7 (toLowerCase (trim input)) = ''.schema''"
    by (simp add: startsWith_def eval_nat_numeral)
  then have ne: "toLowerCase (trim input) \<noteq> []"
    by auto
  have "toLowerCase (trim input) \<noteq> ''.exit''" "toLowerCase (trim input) \<noteq> ''.quit''"
    "toLowerCase (trim input) \<noteq> ''.help''" "toLowerCase (trim input) \<noteq> ''.tables''"
    using tk by auto
  with on_line_dispatch [OF refl ne, of s w] st show ?thesis
    by simp
qed

lemma exit_repl_run:
  "exit_repl =
     [ConsoleLog [Text (nl # ''Goodbye!'')], RlClose,
      ConsoleLog [Text (nl # ''Goodbye!'')], RlClose, ProcessExit 0]"
  by (simp add: exit_repl_def andThen_def rl_close_def exit_closed_def exited_def)

lemma exit_repl_exited: "exited (exit_repl :: 'v event list)"
  by (simp add: exited_def exit_repl_run)

text \<open>
  C8. The handling of a line depends only on the line without its leading and
  trailing whitespace; a line that is all whitespace gives the prompt and nothing
  else; and the five dot-commands are recognised whatever the case of their letters:
  \<open>.exit\<close> and \<open>.quit\<close> end the session (the farewell, \<open>rl.close()\<close>, whose close
  listener says farewell again and exits with code 0; the remaining lines are not handled),
  \<open>.help\<close> prints the help, \<open>.tables\<close> lists the tables, and a line whose first
  seven characters are \<open>.schema\<close> in any case is the schema command.
\<close>

theorem lines_trimmed_commands_caseless:
  "(list_all is_whitespace pre \<and> list_all is_whitespace post \<longrightarrow>
      on_line s w (pre @ input @ post) = on_line s w input) \<and>
   (list_all is_whitespace input \<longrightarrow> on_line s w input = [Prompt]) \<and>
   (caseless_eq (trim input) ''.exit'' \<or> caseless_eq (trim input) ''.quit'' \<longrightarrow>
      on_line s w input =
        [ConsoleLog [Text (nl # ''Goodbye!'')], RlClose,
         ConsoleLog [Text (nl # ''Goodbye!'')], RlClose, ProcessExit 0] \<and>
      run_lines s ((w, input) # rest) = on_line s w input) \<and>
   (caseless_eq (trim input) ''.help'' \<longrightarrow> on_line s w input = showHelp @ [Prompt]) \<and>
   (caseless_eq (trim input) ''.tables'' \<longrightarrow> on_line s w input = showTables s w @ [Prompt]) \<and>
   (caseless_eq (take 7 (trim input)) ''.schema'' \<longrightarrow>
      on_line s w input =
        showSchema s w (at_index (split (CHR '' '') (trim input)) 1) @ [Prompt])"
proof (intro conjI impI)
  assume "list_all is_whitespace pre \<and> list_all is_whitespace post"
  then show "on_line s w (pre @ input @ post) = on_line s w input"
    by (simp add: on_line_def trim_padding)
next
  assume "list_all is_whitespace input"
  then show "on_line s w input = [Prompt]"
    by (simp add: on_line_def trim_blank)
next
  assume "caseless_eq (trim input) ''.exit'' \<or> caseless_eq (trim input) ''.quit''"
  then have "toLowerCase (trim input) = ''.exit'' \<or> toLowerCase (trim input) = ''.quit''"
    using toLowerCase_of_caseless [OF _ plain_commands(1)]
      toLowerCase_of_caseless [OF _ plain_commands(2)] by blast
  then have e: "on_line s w input = exit_repl"
    using on_line_dispatch [of input "toLowerCase (trim input)" s w] by auto
  then show "on_line s w input =
        [ConsoleLog [Text (nl # ''Goodbye!'')], RlClose,
         ConsoleLog [Text (nl # ''Goodbye!'')], RlClose, ProcessExit 0]"
    by (simp only: exit_repl_run)
  show "run_lines s ((w, input) # rest) = on_line s w input"
    by (simp add: e exit_repl_exited)
next
  assume "caseless_eq (trim input) ''.help''"
  then have "toLowerCase (trim input) = ''.help''"
    by (rule toLowerCase_of_caseless [OF _ plain_commands(3)])
  then show "on_line s w input = showHelp @ [Prompt]"
    using on_line_dispatch [of input "''.help''" s w] by simp
next
  assume "caseless_eq (trim input) ''.tables''"
  then have "toLowerCase (trim input) = ''.tables''"
    by (rule toLowerCase_of_caseless [OF _ plain_commands(4)])
  then show "on_line s w input = showTables s w @ [Prompt]"
    using on_line_dispatch [of input "''.tables''" s w] by simp
next
  assume "caseless_eq (take 7 (trim input)) ''.schema''"
  then show "on_line s w input =
        showSchema s w (at_index (split (CHR '' '') (trim input)) 1) @ [Prompt]"
    by (simp only: on_line_schema split_space_second)
qed

lemma char_eq_char_of: "c = char_of n \<longleftrightarrow> take_bit 8 n = (of_char c :: nat)"
  by (metis char_of_eq_iff)

lemmas caseless_eval = caseless_eq_def ascii_upper_def char_eq_char_of

theorem lines_trimmed_commands_caseless_witness:
  "on_line \<lparr>databaseName = ''db'', flags = []\<rparr> (quiet_world :: unit world)
     [CHR '' '', CHR 0x09, CHR '' ''] = [Prompt] \<and>
   on_line \<lparr>databaseName = ''db'', flags = []\<rparr> (quiet_world :: unit world) '' .EXIT  '' =
     [ConsoleLog [Text (nl # ''Goodbye!'')], RlClose,
      ConsoleLog [Text (nl # ''Goodbye!'')], RlClose, ProcessExit 0] \<and>
   run_lines \<lparr>databaseName = ''db'', flags = []\<rparr>
     [(quiet_world :: unit world, '' .EXIT  ''), (quiet_world, ''SELECT 1;'')] =
     on_line \<lparr>databaseName = ''db'', flags = []\<rparr> quiet_world '' .EXIT  '' \<and>
   on_line \<lparr>databaseName = ''db'', flags = []\<rparr> (quiet_world :: unit world) ''.Help'' =
     showHelp @ [Prompt] \<and>
   on_line \<lparr>databaseName = ''db'', flags = []\<rparr> (quiet_world :: unit world)
     (''  '' @ ''.TABLES'' @ '' '') =
     showTables \<lparr>databaseName = ''db'', flags = []\<rparr> quiet_world @ [Prompt] \<and>
   on_line \<lparr>databaseName = ''db'', flags = []\<rparr> (quiet_world :: unit world) ''.Schema Users'' =
     showSchema \<lparr>databaseName = ''db'', flags = []\<rparr> quiet_world (Some ''Users'') @ [Prompt]"
proof -
  let ?s = "\<lparr>databaseName = ''db'', flags = []\<rparr>"
  let ?w = "quiet_world :: unit world"
  note t = lines_trimmed_commands_caseless [where s = ?s and w = ?w]
  have h1: "list_all is_whitespace [CHR '' '', CHR 0x09, CHR '' '']"
    by (simp add: is_whitespace_def)
  have blank: "on_line ?s ?w [CHR '' '', CHR 0x09, CHR '' ''] = [Prompt]"
    by (rule t [where input = "[CHR '' '', CHR 0x09, CHR '' '']" and pre = "[]" and post = "[]"
          and rest = "[]", THEN conjunct2, THEN conjunct1, THEN mp, OF h1])
  have h2: "caseless_eq (trim '' .EXIT  '') ''.exit'' \<or> caseless_eq (trim '' .EXIT  '') ''.quit''"
    by (simp add: string_eval caseless_eval)
  have ex: "on_line ?s ?w '' .EXIT  '' =
        [ConsoleLog [Text (nl # ''Goodbye!'')], RlClose,
         ConsoleLog [Text (nl # ''Goodbye!'')], RlClose, ProcessExit 0] \<and>
      run_lines ?s [(?w, '' .EXIT  ''), (?w, ''SELECT 1;'')] = on_line ?s ?w '' .EXIT  ''"
    by (rule t [where input = "'' .EXIT  ''" and pre = "[]" and post = "[]"
          and rest = "[(?w, ''SELECT 1;'')]", THEN conjunct2, THEN conjunct2, THEN conjunct1,
          THEN mp, OF h2])
  have h3: "caseless_eq (trim ''.Help'') ''.help''"
    by (simp add: string_eval caseless_eval)
  have hlp: "on_line ?s ?w ''.Help'' = showHelp @ [Prompt]"
    by (rule t [where input = "''.Help''" and pre = "[]" and post = "[]" and rest = "[]",
          THEN conjunct2, THEN conjunct2, THEN conjunct2, THEN conjunct1, THEN mp, OF h3])
  have h4: "list_all is_whitespace ''  '' \<and> list_all is_whitespace '' ''"
    by (simp add: is_whitespace_def)
  have pad: "on_line ?s ?w (''  '' @ ''.TABLES'' @ '' '') = on_line ?s ?w ''.TABLES''"
    by (rule t [where input = "''.TABLES''" and pre = "''  ''" and post = "'' ''" and rest = "[]",
          THEN conjunct1, THEN mp, OF h4])
  have h5: "caseless_eq (trim ''.TABLES'') ''.tables''"
    by (simp add: string_eval caseless_eval)
  have tab: "on_line ?s ?w ''.TABLES'' = showTables ?s ?w @ [Prompt]"
    by (rule t [where input = "''.TABLES''" and pre = "[]" and post = "[]" and rest = "[]",
          THEN conjunct2, THEN conjunct2, THEN conjunct2, THEN conjunct2, THEN conjunct1,
          THEN mp, OF h5])
  have h6: "caseless_eq (take 7 (trim ''.Schema Users'')) ''.schema''"
    by (simp add: string_eval caseless_eval)
  have arg: "at_index (split (CHR '' '') (trim ''.Schema Users'')) 1 = Some ''Users''"
    by (simp add: string_eval)
  have sch: "on_line ?s ?w ''.Schema Users'' = showSchema ?s ?w (Some ''Users'') @ [Prompt]"
    using t [where input = "''.Schema Users''" and pre = "[]" and post = "[]" and rest = "[]",
          THEN conjunct2, THEN conjunct2, THEN conjunct2, THEN conjunct2, THEN conjunct2,
          THEN mp, OF h6]
    by (simp only: arg)
  from blank ex hlp pad tab sch show ?thesis
    by (simp only: simp_thms)
qed

section \<open>The synthesized SQL\<close>

lemma last_build_args: "last (build_args s w sql) = sql"
  by (simp add: build_args_def)

lemma submitted_sql: "map last (spawned_argvs (executeSQL s w sql @ [Prompt])) = [sql]"
  by (simp add: spawned_argvs_append spawned_argvs_executeSQL last_build_args)

text \<open>
  C5. When \<open>.tables\<close> is entered (in any case, with any whitespace around it), the
  handler runs the executor on exactly the text
  \<open>SELECT name FROM sqlite_master WHERE type='table' AND name NOT LIKE 'sqlite_%' ORDER BY name;\<close>
  and then prompts; that text is the last argument of the one child process spawned.
\<close>

theorem tables_sql_text:
  "caseless_eq (trim input) ''.tables'' \<Longrightarrow>
     on_line s w input =
       executeSQL s w
         ''SELECT name FROM sqlite_master WHERE type='table' AND name NOT LIKE 'sqlite_%' ORDER BY name;'' @
       [Prompt] \<and>
     map last (spawned_argvs (on_line s w input)) =
       [''SELECT name FROM sqlite_master WHERE type='table' AND name NOT LIKE 'sqlite_%' ORDER BY name;'']"
proof -
  assume "caseless_eq (trim input) ''.tables''"
  then have "toLowerCase (trim input) = ''.tables''"
    by (rule toLowerCase_of_caseless [OF _ plain_commands(4)])
  then have "on_line s w input = executeSQL s w tables_sql @ [Prompt]"
    using on_line_dispatch [of input "''.tables''" s w] by (simp add: showTables_def)
  then show ?thesis
    by (simp only: submitted_sql) (simp add: tables_sql_def)
qed

theorem tables_sql_text_witness:
  "map last (spawned_argvs
     (on_line \<lparr>databaseName = ''db'', flags = []\<rparr> (quiet_world :: unit world) '' .Tables '')) =
   [''SELECT name FROM sqlite_master WHERE type='table' AND name NOT LIKE 'sqlite_%' ORDER BY name;'']"
proof -
  have h: "caseless_eq (trim '' .Tables '') ''.tables''"
    by (simp add: string_eval caseless_eval)
  show ?thesis
    by (rule tables_sql_text [OF h, THEN conjunct2])
qed



section \<open>The schema command\<close>

lemma lower_char_whitespace: "is_whitespace c \<Longrightarrow> lower_char c = c"
  by (auto simp: is_whitespace_def lower_char_def)

lemma no_whitespace_of_lower:
  "toLowerCase t = l \<Longrightarrow> list_all (\<lambda>c. \<not> is_whitespace c) l \<Longrightarrow>
     list_all (\<lambda>c. \<not> is_whitespace c) t"
proof (induction t arbitrary: l)
  case Nil
  show ?case by simp
next
  case (Cons x t)
  then obtain c l' where l: "l = c # l'" "lower_char x = c" "toLowerCase t = l'"
    by (auto simp: toLowerCase_def)
  with Cons.prems(2) have "\<not> is_whitespace c" "list_all (\<lambda>c. \<not> is_whitespace c) l'"
    by simp_all
  with Cons.IH [OF l(3)] l(2) lower_char_whitespace [of x] show ?case
    by auto
qed

lemma schema_word:
  assumes "caseless_eq cmd ''.schema''"
  shows "length cmd = 7" and "list_all (\<lambda>c. \<not> is_whitespace c) cmd" and "take 7 cmd = cmd"
proof -
  have low: "toLowerCase cmd = ''.schema''"
    using assms by (rule toLowerCase_of_caseless [OF _ plain_commands(5)])
  then have "length (toLowerCase cmd) = 7"
    by simp
  then show len: "length cmd = 7"
    by (simp add: toLowerCase_def)
  show "list_all (\<lambda>c. \<not> is_whitespace c) cmd"
    by (rule no_whitespace_of_lower [OF low]) (simp add: is_whitespace_def)
  from len show "take 7 cmd = cmd"
    by simp
qed

lemma space_is_whitespace: "list_all (\<lambda>c. \<not> is_whitespace c) t \<Longrightarrow> CHR '' '' \<notin> set t"
  by (auto simp: list_all_iff is_whitespace_def)

lemma between_spaces_none: "CHR '' '' \<notin> set t \<Longrightarrow> between_spaces t = None"
  by (simp add: between_spaces_def)

lemma dropWhile_to_space:
  "CHR '' '' \<notin> set p \<Longrightarrow>
     dropWhile (\<lambda>c. c \<noteq> CHR '' '') (p @ CHR '' '' # r) = CHR '' '' # r"
  by (induction p) auto

lemma between_spaces_word:
  "CHR '' '' \<notin> set p \<Longrightarrow> CHR '' '' \<notin> set name \<Longrightarrow>
     between_spaces (p @ CHR '' '' # name) = Some name"
proof -
  assume p: "CHR '' '' \<notin> set p" and n: "CHR '' '' \<notin> set name"
  from n have "takeWhile (\<lambda>c. c \<noteq> CHR '' '') name = name"
    by (intro takeWhile_eq_all_conv [THEN iffD2]) auto
  with p show ?thesis
    by (simp add: between_spaces_def dropWhile_to_space)
qed

lemma between_spaces_double:
  "CHR '' '' \<notin> set p \<Longrightarrow> between_spaces (p @ CHR '' '' # CHR '' '' # r) = Some []"
  by (simp add: between_spaces_def dropWhile_to_space)

lemma trim_word:
  assumes "t \<noteq> []" and "list_all (\<lambda>c. \<not> is_whitespace c) t"
  shows "trim t = t"
proof (rule trim_stable [OF assms(1)])
  from assms show "\<not> is_whitespace (hd t)"
    by (cases t) simp_all
  from assms show "\<not> is_whitespace (last t)"
    by (cases t rule: rev_cases) simp_all
qed

text \<open>
  C9. A line whose trimmed form starts with \<open>.schema\<close> in any case is the schema
  command, whatever follows the seven characters: the SQL submitted is the schema
  query, not the line. The table-name argument is the second piece of the trimmed
  line (not lowered) split at spaces, that is the text between its first and its
  second space, so it keeps its case; when two spaces follow the first word the
  argument is empty and the query is the one for all tables.
\<close>

theorem schema_prefix_and_argument:
  "at_index (split (CHR '' '') (trim input)) 1 = between_spaces (trim input) \<and>
   (caseless_eq (take 7 (trim input)) ''.schema'' \<longrightarrow>
      on_line s w input =
        executeSQL s w (schema_sql (between_spaces (trim input))) @ [Prompt] \<and>
      map last (spawned_argvs (on_line s w input)) =
        [schema_sql (between_spaces (trim input))]) \<and>
   (caseless_eq (take 7 (trim input)) ''.schema'' \<and>
    trim input = p @ ''  '' @ rest \<and> CHR '' '' \<notin> set p \<longrightarrow>
      on_line s w input =
        executeSQL s w
          ''SELECT name, sql FROM sqlite_master WHERE type='table' AND name NOT LIKE 'sqlite_%' ORDER BY name;'' @
        [Prompt])"
proof (intro conjI impI)
  show "at_index (split (CHR '' '') (trim input)) 1 = between_spaces (trim input)"
    by (rule split_space_second)
next
  assume "caseless_eq (take 7 (trim input)) ''.schema''"
  then show e: "on_line s w input =
      executeSQL s w (schema_sql (between_spaces (trim input))) @ [Prompt]"
    by (simp only: on_line_schema showSchema_def)
  show "map last (spawned_argvs (on_line s w input)) =
      [schema_sql (between_spaces (trim input))]"
    by (simp only: e submitted_sql)
next
  assume a: "caseless_eq (take 7 (trim input)) ''.schema'' \<and>
    trim input = p @ ''  '' @ rest \<and> CHR '' '' \<notin> set p"
  then have "between_spaces (trim input) = Some []"
    using between_spaces_double [of p rest] by simp
  moreover from a have "caseless_eq (take 7 (trim input)) ''.schema''"
    by (rule conjunct1)
  then have "on_line s w input =
      executeSQL s w (schema_sql (between_spaces (trim input))) @ [Prompt]"
    by (simp only: on_line_schema showSchema_def)
  ultimately show "on_line s w input =
        executeSQL s w
          ''SELECT name, sql FROM sqlite_master WHERE type='table' AND name NOT LIKE 'sqlite_%' ORDER BY name;'' @
        [Prompt]"
    by (simp add: schema_sql_def)
qed

theorem schema_prefix_and_argument_witness:
  "on_line \<lparr>databaseName = ''db'', flags = []\<rparr> (quiet_world :: unit world) ''.schemathing'' =
     executeSQL \<lparr>databaseName = ''db'', flags = []\<rparr> quiet_world
       ''SELECT name, sql FROM sqlite_master WHERE type='table' AND name NOT LIKE 'sqlite_%' ORDER BY name;'' @
     [Prompt] \<and>
   on_line \<lparr>databaseName = ''db'', flags = []\<rparr> (quiet_world :: unit world)
     '' .SCHEMA Users extra '' =
     executeSQL \<lparr>databaseName = ''db'', flags = []\<rparr> quiet_world
       (''SELECT sql FROM sqlite_master WHERE type='table' AND name='' @ [sq] @ ''Users'' @
        [sq] @ '';'') @
     [Prompt] \<and>
   on_line \<lparr>databaseName = ''db'', flags = []\<rparr> (quiet_world :: unit world) ''.schema  foo'' =
     executeSQL \<lparr>databaseName = ''db'', flags = []\<rparr> quiet_world
       ''SELECT name, sql FROM sqlite_master WHERE type='table' AND name NOT LIKE 'sqlite_%' ORDER BY name;'' @
     [Prompt]"
proof -
  let ?s = "\<lparr>databaseName = ''db'', flags = []\<rparr>"
  let ?w = "quiet_world :: unit world"
  note t = schema_prefix_and_argument [where s = ?s and w = ?w]
  have h1: "caseless_eq (take 7 (trim ''.schemathing'')) ''.schema''"
    by (simp add: string_eval caseless_eval)
  have a1: "schema_sql (between_spaces (trim ''.schemathing'')) =
      ''SELECT name, sql FROM sqlite_master WHERE type='table' AND name NOT LIKE 'sqlite_%' ORDER BY name;''"
    by (simp add: string_eval between_spaces_def schema_sql_def)
  have c1: "on_line ?s ?w ''.schemathing'' =
      executeSQL ?s ?w
       ''SELECT name, sql FROM sqlite_master WHERE type='table' AND name NOT LIKE 'sqlite_%' ORDER BY name;'' @
      [Prompt]"
    using t [where input = "''.schemathing''" and p = "[]" and rest = "[]", THEN conjunct2,
        THEN conjunct1, THEN mp, OF h1, THEN conjunct1]
    by (simp only: a1)
  have h2: "caseless_eq (take 7 (trim '' .SCHEMA Users extra '')) ''.schema''"
    by (simp add: string_eval caseless_eval)
  have a2: "schema_sql (between_spaces (trim '' .SCHEMA Users extra '')) =
      ''SELECT sql FROM sqlite_master WHERE type='table' AND name='' @ [sq] @ ''Users'' @
        [sq] @ '';''"
    by (simp add: string_eval between_spaces_def schema_sql_def)
  have c2: "on_line ?s ?w '' .SCHEMA Users extra '' =
      executeSQL ?s ?w
       (''SELECT sql FROM sqlite_master WHERE type='table' AND name='' @ [sq] @ ''Users'' @
        [sq] @ '';'') @
      [Prompt]"
    using t [where input = "'' .SCHEMA Users extra ''" and p = "[]" and rest = "[]",
        THEN conjunct2, THEN conjunct1, THEN mp, OF h2, THEN conjunct1]
    by (simp only: a2)
  have h3: "caseless_eq (take 7 (trim ''.schema  foo'')) ''.schema'' \<and>
      trim ''.schema  foo'' = ''.schema'' @ ''  '' @ ''foo'' \<and> CHR '' '' \<notin> set ''.schema''"
    by (simp add: string_eval caseless_eval)
  have c3: "on_line ?s ?w ''.schema  foo'' =
      executeSQL ?s ?w
       ''SELECT name, sql FROM sqlite_master WHERE type='table' AND name NOT LIKE 'sqlite_%' ORDER BY name;'' @
      [Prompt]"
    by (rule t [where input = "''.schema  foo''" and p = "''.schema''" and rest = "''foo''",
          THEN conjunct2, THEN conjunct2, THEN mp, OF h3])
  from c1 c2 c3 show ?thesis
    by (simp only: simp_thms)
qed



section \<open>The schema query and quotes\<close>

lemma on_line_schema_alone:
  assumes "caseless_eq cmd ''.schema''"
  shows "on_line s w cmd =
     executeSQL s w
       ''SELECT name, sql FROM sqlite_master WHERE type='table' AND name NOT LIKE 'sqlite_%' ORDER BY name;'' @
     [Prompt]"
proof -
  note word = schema_word [OF assms]
  from word(1) have ne: "cmd \<noteq> []"
    by auto
  have tr: "trim cmd = cmd"
    by (rule trim_word [OF ne word(2)])
  have "caseless_eq (take 7 (trim cmd)) ''.schema''"
    by (simp only: tr word(3) assms)
  then have "on_line s w cmd = showSchema s w (between_spaces (trim cmd)) @ [Prompt]"
    by (rule on_line_schema)
  moreover have "between_spaces cmd = None"
    by (rule between_spaces_none [OF space_is_whitespace [OF word(2)]])
  ultimately show ?thesis
    by (simp add: tr showSchema_def schema_sql_def)
qed

lemma on_line_schema_name:
  assumes "caseless_eq cmd ''.schema''"
    and "name \<noteq> []" and "CHR '' '' \<notin> set name" and "\<not> is_whitespace (last name)"
  shows "on_line s w (cmd @ '' '' @ name) =
     executeSQL s w
       (''SELECT sql FROM sqlite_master WHERE type='table' AND name='' @ [sq] @ name @ [sq] @
        '';'') @
     [Prompt]"
proof -
  note word = schema_word [OF assms(1)]
  let ?t = "cmd @ CHR '' '' # name"
  from word(1) have ne: "cmd \<noteq> []"
    by auto
  with word(2) have "\<not> is_whitespace (hd ?t)"
    by (cases cmd) simp_all
  moreover from assms(2,4) have "\<not> is_whitespace (last ?t)"
    by simp
  ultimately have tr: "trim ?t = ?t"
    by (intro trim_stable) simp_all
  from word(1) have "take 7 ?t = cmd"
    by simp
  then have "caseless_eq (take 7 (trim ?t)) ''.schema''"
    by (simp only: tr assms(1))
  then have ol: "on_line s w ?t = showSchema s w (between_spaces (trim ?t)) @ [Prompt]"
    by (rule on_line_schema)
  have bs: "between_spaces ?t = Some name"
    by (rule between_spaces_word [OF space_is_whitespace [OF word(2)] assms(3)])
  have "on_line s w ?t =
     executeSQL s w
       (''SELECT sql FROM sqlite_master WHERE type='table' AND name='' @ [sq] @ name @ [sq] @
        '';'') @
     [Prompt]"
    unfolding ol tr bs
    using assms(2) by (simp add: showSchema_def schema_sql_def)
  then show ?thesis
    by simp
qed

lemma length_doubled_quotes:
  "length (concat (map (\<lambda>c. if c = sq then [sq, sq] else [c]) t)) =
     length t + length (filter (\<lambda>c. c = sq) t)"
  by (induction t) simp_all

lemma sql_quoted_longer:
  assumes "sq \<in> set name"
  shows "length (sql_quoted name) > length name + 2"
proof -
  from assms have "filter (\<lambda>c. c = sq) name \<noteq> []"
    by (simp add: filter_empty_conv)
  then have "length (filter (\<lambda>c. c = sq) name) > 0"
    by simp
  then show ?thesis
    by (simp add: sql_quoted_def length_doubled_quotes)
qed

text \<open>
  C6, as stated: every table name that contains a quote character gives a malformed
  query text. It fails for the name \<open>a''b\<close> (two quotes in a row): the text built
  for it is, character for character, the correctly quoted statement that looks up
  the table named \<open>a'b\<close>, which is well-formed.
\<close>

theorem schema_sql_text_counterexample:
  "sq \<in> set (''a'' @ [sq, sq] @ ''b'') \<and>
   schema_sql (Some (''a'' @ [sq, sq] @ ''b'')) =
     ''SELECT sql FROM sqlite_master WHERE type='table' AND name='' @ sql_quoted ''a'b'' @ '';'' \<and>
   on_line \<lparr>databaseName = ''db'', flags = []\<rparr> (quiet_world :: unit world)
     (''.schema a'' @ [sq, sq] @ ''b'') =
     executeSQL \<lparr>databaseName = ''db'', flags = []\<rparr> quiet_world
       (''SELECT sql FROM sqlite_master WHERE type='table' AND name='' @ sql_quoted ''a'b'' @
        '';'') @
     [Prompt]"
proof -
  have q: "schema_sql (Some (''a'' @ [sq, sq] @ ''b'')) =
     ''SELECT sql FROM sqlite_master WHERE type='table' AND name='' @ sql_quoted ''a'b'' @ '';''"
    by (simp add: schema_sql_def sql_quoted_def)
  have l: "on_line \<lparr>databaseName = ''db'', flags = []\<rparr> (quiet_world :: unit world)
     (''.schema a'' @ [sq, sq] @ ''b'') =
     executeSQL \<lparr>databaseName = ''db'', flags = []\<rparr> quiet_world
       (schema_sql (Some (''a'' @ [sq, sq] @ ''b''))) @ [Prompt]"
    by (simp add: on_line_def string_eval showSchema_def)
  show ?thesis
    using l by (simp only: q) simp
qed

text \<open>
  C6, amended: \<open>.schema\<close> alone gives the all-tables query; \<open>.schema name\<close> gives
  the single-table query with the name put between the two quotes exactly as typed,
  nothing escaped; so for every name that contains a quote character the text is not
  the correctly quoted query for that name (in which each quote of the name is
  doubled). Whether the text is malformed depends on the name.
\<close>

theorem schema_sql_text:
  "(caseless_eq cmd ''.schema'' \<longrightarrow>
      on_line s w cmd =
        executeSQL s w
          ''SELECT name, sql FROM sqlite_master WHERE type='table' AND name NOT LIKE 'sqlite_%' ORDER BY name;'' @
        [Prompt]) \<and>
   (caseless_eq cmd ''.schema'' \<and> name \<noteq> [] \<and> CHR '' '' \<notin> set name \<and>
    \<not> is_whitespace (last name) \<longrightarrow>
      on_line s w (cmd @ '' '' @ name) =
        executeSQL s w
          (''SELECT sql FROM sqlite_master WHERE type='table' AND name='' @ [sq] @ name @
           [sq] @ '';'') @
        [Prompt]) \<and>
   (sq \<in> set name \<longrightarrow>
      ''SELECT sql FROM sqlite_master WHERE type='table' AND name='' @ [sq] @ name @ [sq] @ '';'' \<noteq>
      ''SELECT sql FROM sqlite_master WHERE type='table' AND name='' @ sql_quoted name @ '';'')"
proof (intro conjI impI)
  assume "caseless_eq cmd ''.schema''"
  then show "on_line s w cmd =
        executeSQL s w
          ''SELECT name, sql FROM sqlite_master WHERE type='table' AND name NOT LIKE 'sqlite_%' ORDER BY name;'' @
        [Prompt]"
    by (rule on_line_schema_alone)
next
  assume "caseless_eq cmd ''.schema'' \<and> name \<noteq> [] \<and> CHR '' '' \<notin> set name \<and>
    \<not> is_whitespace (last name)"
  then show "on_line s w (cmd @ '' '' @ name) =
        executeSQL s w
          (''SELECT sql FROM sqlite_master WHERE type='table' AND name='' @ [sq] @ name @
           [sq] @ '';'') @
        [Prompt]"
    by (intro on_line_schema_name) simp_all
next
  assume "sq \<in> set name"
  then have "length ([sq] @ name @ [sq] @ '';'') \<noteq> length (sql_quoted name @ '';'')"
    using sql_quoted_longer [of name] by simp
  then have "[sq] @ name @ [sq] @ '';'' \<noteq> sql_quoted name @ '';''"
  proof (rule contrapos_nn)
    assume "[sq] @ name @ [sq] @ '';'' = sql_quoted name @ '';''"
    then show "length ([sq] @ name @ [sq] @ '';'') = length (sql_quoted name @ '';'')"
      by (rule arg_cong)
  qed
  then show "''SELECT sql FROM sqlite_master WHERE type='table' AND name='' @ [sq] @ name @ [sq] @ '';'' \<noteq>
      ''SELECT sql FROM sqlite_master WHERE type='table' AND name='' @ sql_quoted name @ '';''"
    by (simp only: same_append_eq simp_thms)
qed

theorem schema_sql_text_witness:
  "on_line \<lparr>databaseName = ''db'', flags = []\<rparr> (quiet_world :: unit world) ''.SCHEMA'' =
     executeSQL \<lparr>databaseName = ''db'', flags = []\<rparr> quiet_world
       ''SELECT name, sql FROM sqlite_master WHERE type='table' AND name NOT LIKE 'sqlite_%' ORDER BY name;'' @
     [Prompt] \<and>
   on_line \<lparr>databaseName = ''db'', flags = []\<rparr> (quiet_world :: unit world)
     (''.schema'' @ '' '' @ ''o'brien'') =
     executeSQL \<lparr>databaseName = ''db'', flags = []\<rparr> quiet_world
       (''SELECT sql FROM sqlite_master WHERE type='table' AND name='' @ [sq] @ ''o'brien'' @
        [sq] @ '';'') @
     [Prompt] \<and>
   ''SELECT sql FROM sqlite_master WHERE type='table' AND name='' @ [sq] @ ''o'brien'' @ [sq] @ '';'' \<noteq>
   ''SELECT sql FROM sqlite_master WHERE type='table' AND name='' @ sql_quoted ''o'brien'' @ '';''"
proof -
  let ?s = "\<lparr>databaseName = ''db'', flags = []\<rparr>"
  let ?w = "quiet_world :: unit world"
  note t = schema_sql_text [where s = ?s and w = ?w]
  have h1: "caseless_eq ''.SCHEMA'' ''.schema''"
    by (simp add: caseless_eval)
  have c1: "on_line ?s ?w ''.SCHEMA'' =
     executeSQL ?s ?w
       ''SELECT name, sql FROM sqlite_master WHERE type='table' AND name NOT LIKE 'sqlite_%' ORDER BY name;'' @
     [Prompt]"
    by (rule t [where cmd = "''.SCHEMA''" and name = "[]", THEN conjunct1, THEN mp, OF h1])
  have h2: "caseless_eq ''.schema'' ''.schema'' \<and> ''o'brien'' \<noteq> [] \<and>
      CHR '' '' \<notin> set ''o'brien'' \<and> \<not> is_whitespace (last ''o'brien'')"
    by (simp add: caseless_eval is_whitespace_def)
  have c2: "on_line ?s ?w (''.schema'' @ '' '' @ ''o'brien'') =
     executeSQL ?s ?w
       (''SELECT sql FROM sqlite_master WHERE type='table' AND name='' @ [sq] @ ''o'brien'' @
        [sq] @ '';'') @
     [Prompt]"
    by (rule t [where cmd = "''.schema''" and name = "''o'brien''", THEN conjunct2,
          THEN conjunct1, THEN mp, OF h2])
  have h3: "sq \<in> set ''o'brien''"
    by simp
  have c3: "''SELECT sql FROM sqlite_master WHERE type='table' AND name='' @ [sq] @ ''o'brien'' @ [sq] @ '';'' \<noteq>
   ''SELECT sql FROM sqlite_master WHERE type='table' AND name='' @ sql_quoted ''o'brien'' @ '';''"
    by (rule t [where cmd = "[]" and name = "''o'brien''", THEN conjunct2, THEN conjunct2,
          THEN mp, OF h3])
  from c1 c2 c3 show ?thesis
    by (simp only: simp_thms)
qed


end
